theory Spec2Isabelle
  imports Complex_Main
begin

section \<open>Data model\<close>

text \<open>
  The TypeScript type \<^verbatim>\<open>number\<close> of the typed records (events, configuration,
  results) is modelled by \<^typ>\<open>real\<close>: a finite value with exact arithmetic. Array
  lengths are natural numbers, converted with \<^term>\<open>real\<close> where the code divides by them.
  Field names follow the source; where two interfaces share a field name the later
  record carries a short prefix.
\<close>

datatype ChangeType = Insert | Delete | Replace

datatype EventSource = Live | History | External

record Position =
  line :: real
  character :: real

record SelectionRange =
  range_start :: Position
  range_end :: Position

record ExternalToolSignature =
  detected :: bool
  toolType :: string
  sig_confidence :: real
  indicators :: "string list"

record EnhancedChangeEvent =
  timestamp :: real
  sessionId :: string
  fileUri :: string
  eventId :: string
  changeType :: ChangeType
  position :: Position
  content :: "string option"
  contentLength :: real
  timeSinceLastChange :: real
  timeSinceSessionStart :: real
  timeSinceFileOpen :: real
  ev_source :: EventSource
  vsCodeActive :: bool
  cursorPosition :: Position
  selectionRange :: "SelectionRange option"
  instantTypingSpeed :: real
  rollingTypingSpeed :: real
  burstDetected :: bool
  pauseBeforeChange :: real
  isCodeBlock :: bool
  isComment :: bool
  isWhitespace :: bool
  languageConstruct :: string
  indentationLevel :: real
  externalToolSignature :: "ExternalToolSignature option"

text \<open>
  \<^verbatim>\<open>HeuristicScores\<close> and the \<^verbatim>\<open>weights\<close> object of the configuration have the same
  six numeric fields, so one record serves both.
\<close>

record HeuristicScores =
  bulkInsertionScore :: real
  typingSpeedScore :: real
  pastePatternScore :: real
  externalToolScore :: real
  contentPatternScore :: real
  timingAnomalyScore :: real

record Thresholds =
  bulkInsertionSize :: real
  fastTypingSpeed :: real
  pasteTimeThreshold :: real
  longPauseThreshold :: real
  rapidSequenceThreshold :: real

record Classification =
  humanThreshold :: real
  aiAssistedThreshold :: real
  aiGeneratedThreshold :: real

datatype AggregationMethod = Average | Max | Weighted

record BucketConfig =
  intervalMinutes :: real
  aggregationMethod :: AggregationMethod
  minEventsPerBucket :: real

record AIDetectionConfig =
  weights :: HeuristicScores
  thresholds :: Thresholds
  classification :: Classification
  bucketConfig :: BucketConfig

record WeightedScore =
  rawScore :: real
  weight :: real
  weightedScore :: real

datatype Source = Human | AIAssisted | AIGenerated | Mixed

text \<open>
  The \<^verbatim>\<open>content\<close> string of a bulk change or typing burst is either an excerpt of the
  event's text or the template \<^verbatim>\<open>[N chars]\<close> rendered from the event's length; the
  placeholder keeps the number instead of its decimal rendering.
\<close>

datatype Preview = Excerpt string | CharsPlaceholder real

record BulkChange =
  size :: real
  timespan :: real
  bulk_content :: Preview

record TypingBurst =
  speed :: real
  burst_duration :: real
  burst_content :: Preview

record AIEvidence =
  ev_externalToolSignature :: bool
  bulkChangePattern :: bool
  timingAnomalies :: bool
  contentCharacteristics :: "string list"
  bulkChanges :: "BulkChange list"
  typingBursts :: "TypingBurst list"
  externalIndicators :: "string list"
  suspiciousPatterns :: "string list"

datatype ExternalChangeType = BulkInsert | BulkReplace | StructuredEdit

record ExternalChangeEvent =
  x_timestamp :: real
  x_fileUri :: string
  x_changeType :: ExternalChangeType
  x_contentLength :: real
  detectedTool :: string
  x_confidence :: real

record TimeGap =
  gap_startTime :: real
  gap_endTime :: real
  duration :: real
  likelyActivity :: string

record AITimeline =
  vsCodeEvents :: "EnhancedChangeEvent list"
  externalEvents :: "ExternalChangeEvent list"
  gaps :: "TimeGap list"

record AIAttribution =
  source :: Source
  confidence :: real
  aiProbability :: real
  evidence :: AIEvidence
  timeline :: AITimeline

definition DEFAULT_AI_DETECTION_CONFIG :: AIDetectionConfig where
  "DEFAULT_AI_DETECTION_CONFIG =
     \<lparr> weights = \<lparr> bulkInsertionScore = 25 / 100, typingSpeedScore = 20 / 100,
                     pastePatternScore = 15 / 100, externalToolScore = 25 / 100,
                     contentPatternScore = 10 / 100, timingAnomalyScore = 5 / 100 \<rparr>,
       thresholds = \<lparr> bulkInsertionSize = 100, fastTypingSpeed = 300,
                        pasteTimeThreshold = 100, longPauseThreshold = 30000,
                        rapidSequenceThreshold = 100 \<rparr>,
       classification = \<lparr> humanThreshold = 3 / 10, aiAssistedThreshold = 6 / 10,
                            aiGeneratedThreshold = 8 / 10 \<rparr>,
       bucketConfig = \<lparr> intervalMinutes = 15, aggregationMethod = Average,
                          minEventsPerBucket = 1 \<rparr> \<rparr>"

section \<open>Attribution engine\<close>

text \<open>
  The engine's methods read \<^verbatim>\<open>this.config\<close>; here the configuration is the first
  argument. The decision trace is a local array of \<^verbatim>\<open>analyze\<close> that the scorers
  append to and that is dropped when \<^verbatim>\<open>analyze\<close> returns, so it is not part of the model.
\<close>

text \<open>\<^verbatim>\<open>change.externalToolSignature?.detected\<close>: an absent signature is falsy.\<close>

definition sigDetected :: "EnhancedChangeEvent \<Rightarrow> bool" where
  "sigDetected change =
     (case externalToolSignature change of None \<Rightarrow> False | Some s \<Rightarrow> detected s)"

text \<open>\<^verbatim>\<open>change.externalToolSignature?.confidence || 0\<close>\<close>

definition sigConfidenceOrZero :: "EnhancedChangeEvent \<Rightarrow> real" where
  "sigConfidenceOrZero change =
     (case externalToolSignature change of
        None \<Rightarrow> 0
      | Some s \<Rightarrow> (if sig_confidence s = 0 then 0 else sig_confidence s))"

definition calculateBulkInsertionScore ::
    "AIDetectionConfig \<Rightarrow> EnhancedChangeEvent list \<Rightarrow> real" where
  "calculateBulkInsertionScore cfg changes =
     (let bulk = filter (\<lambda>change. changeType change = Insert \<and>
                    contentLength change > bulkInsertionSize (thresholds cfg)) changes
      in min (real (length bulk) / real (length changes)) 1)"

text \<open>
  With a \<^verbatim>\<open>fastTypingSpeed\<close> of zero the JavaScript quotient of the (positive)
  average by zero is \<^verbatim>\<open>Infinity\<close>, whose minimum with 1 is 1; HOL's quotient by zero
  is 0, so that case is written out.
\<close>

definition calculateTypingSpeedScore ::
    "AIDetectionConfig \<Rightarrow> EnhancedChangeEvent list \<Rightarrow> real" where
  "calculateTypingSpeedScore cfg changes =
     (let typingSpeeds = map instantTypingSpeed
                           (filter (\<lambda>change. instantTypingSpeed change > 0) changes)
      in if length typingSpeeds = 0 then 0
         else
           let averageSpeed = foldl (\<lambda>sum speed. sum + speed) 0 typingSpeeds
                                / real (length typingSpeeds);
               highSpeedCount = length (filter (\<lambda>speed. speed > fastTypingSpeed (thresholds cfg))
                                          typingSpeeds);
               divisor = fastTypingSpeed (thresholds cfg) * (3 / 2);
               speedScore = (if divisor = 0 then 1 else min (averageSpeed / divisor) 1);
               frequencyScore = real highSpeedCount / real (length typingSpeeds)
           in (speedScore + frequencyScore) / 2)"

definition calculatePastePatternScore ::
    "AIDetectionConfig \<Rightarrow> EnhancedChangeEvent list \<Rightarrow> real" where
  "calculatePastePatternScore cfg changes =
     (let pasteIndicators = filter (\<lambda>change.
              timeSinceLastChange change < pasteTimeThreshold (thresholds cfg) \<and>
              contentLength change > 50 \<and>
              changeType change = Insert) changes
      in min (real (length pasteIndicators) / real (max (length changes) 1)) 1)"

definition calculateExternalToolScore ::
    "AIDetectionConfig \<Rightarrow> EnhancedChangeEvent list \<Rightarrow> real" where
  "calculateExternalToolScore cfg changes =
     (let externalSignatures = filter sigDetected changes
      in if length externalSignatures = 0 then 0
         else
           let averageConfidence =
                 foldl (\<lambda>sum change. sum + sigConfidenceOrZero change) 0 externalSignatures
                   / real (length externalSignatures);
               score = (real (length externalSignatures) / real (length changes))
                         * averageConfidence
           in min score 1)"

definition calculateContentPatternScore ::
    "AIDetectionConfig \<Rightarrow> EnhancedChangeEvent list \<Rightarrow> real" where
  "calculateContentPatternScore cfg changes =
     (let codeBlocks = filter isCodeBlock changes;
          structuredCode = filter (\<lambda>change. languageConstruct change \<noteq> ''unknown'' \<and>
                                      languageConstruct change \<noteq> '''') changes;
          comments = filter isComment changes;
          codeBlockRatio = real (length codeBlocks) / real (max (length changes) 1);
          structuredRatio = real (length structuredCode) / real (max (length changes) 1);
          commentRatio = real (length comments) / real (max (length changes) 1);
          score = codeBlockRatio * (4 / 10) + structuredRatio * (4 / 10)
                    + commentRatio * (2 / 10)
      in min score 1)"

definition calculateTimingAnomalyScore ::
    "AIDetectionConfig \<Rightarrow> EnhancedChangeEvent list \<Rightarrow> real" where
  "calculateTimingAnomalyScore cfg changes =
     (if length changes < 2 then 0
      else
        let longPauses = filter (\<lambda>change.
                timeSinceLastChange change > longPauseThreshold (thresholds cfg)) changes;
            rapidSequences = filter (\<lambda>change.
                timeSinceLastChange change < rapidSequenceThreshold (thresholds cfg) \<and>
                timeSinceLastChange change > 0) changes;
            anomalyRatio = real (length longPauses + length rapidSequences)
                             / real (length changes)
        in min anomalyRatio 1)"

definition calculateHeuristicScores ::
    "AIDetectionConfig \<Rightarrow> EnhancedChangeEvent list \<Rightarrow> HeuristicScores" where
  "calculateHeuristicScores cfg changes =
     \<lparr> bulkInsertionScore = calculateBulkInsertionScore cfg changes,
       typingSpeedScore = calculateTypingSpeedScore cfg changes,
       pastePatternScore = calculatePastePatternScore cfg changes,
       externalToolScore = calculateExternalToolScore cfg changes,
       contentPatternScore = calculateContentPatternScore cfg changes,
       timingAnomalyScore = calculateTimingAnomalyScore cfg changes \<rparr>"

subsection \<open>Weighted combination\<close>

text \<open>\<^verbatim>\<open>Object.entries\<close> of a six-score object, in the order its literal lists the keys.\<close>

definition heuristicEntries :: "HeuristicScores \<Rightarrow> (string \<times> real) list" where
  "heuristicEntries hs =
     [(''bulkInsertionScore'', bulkInsertionScore hs),
      (''typingSpeedScore'', typingSpeedScore hs),
      (''pastePatternScore'', pastePatternScore hs),
      (''externalToolScore'', externalToolScore hs),
      (''contentPatternScore'', contentPatternScore hs),
      (''timingAnomalyScore'', timingAnomalyScore hs)]"

text \<open>\<^verbatim>\<open>this.config.weights[heuristic] || 0\<close>: a missing or zero weight counts as 0.\<close>

definition weightOrZero :: "HeuristicScores \<Rightarrow> string \<Rightarrow> real" where
  "weightOrZero w heuristic =
     (case map_of (heuristicEntries w) heuristic of
        None \<Rightarrow> 0
      | Some v \<Rightarrow> (if v = 0 then 0 else v))"

definition combineScores ::
    "AIDetectionConfig \<Rightarrow> HeuristicScores \<Rightarrow> (string \<times> WeightedScore) list" where
  "combineScores cfg heuristicScores =
     map (\<lambda>(heuristic, raw).
            let w = weightOrZero (weights cfg) heuristic
            in (heuristic, \<lparr> rawScore = raw, weight = w, weightedScore = raw * w \<rparr>))
         (heuristicEntries heuristicScores)"

text \<open>
  \<^verbatim>\<open>Object.values(weightedScores).reduce((sum, score) => sum + score.weightedScore, 0)\<close>,
  computed once for the trace in \<^verbatim>\<open>combineScores\<close> and again as \<^verbatim>\<open>totalScore\<close> in
  \<^verbatim>\<open>makeFinalDecision\<close>.
\<close>

definition totalWeightedScore :: "(string \<times> WeightedScore) list \<Rightarrow> real" where
  "totalWeightedScore weightedScores =
     foldl (\<lambda>sum score. sum + weightedScore score) 0 (map snd weightedScores)"

subsection \<open>Final decision\<close>

record FinalDecision =
  d_source :: Source
  d_confidence :: real
  d_aiProbability :: real

text \<open>The threshold chain at the head of \<^verbatim>\<open>makeFinalDecision\<close>.\<close>

definition decideByThreshold :: "AIDetectionConfig \<Rightarrow> real \<Rightarrow> FinalDecision" where
  "decideByThreshold cfg totalScore =
     (if totalScore < humanThreshold (classification cfg) then
        \<lparr> d_source = Human, d_confidence = 1 - totalScore, d_aiProbability = totalScore \<rparr>
      else if totalScore < aiAssistedThreshold (classification cfg) then
        \<lparr> d_source = AIAssisted, d_confidence = 8 / 10, d_aiProbability = totalScore \<rparr>
      else if totalScore < aiGeneratedThreshold (classification cfg) then
        \<lparr> d_source = AIGenerated, d_confidence = totalScore, d_aiProbability = totalScore \<rparr>
      else
        \<lparr> d_source = AIGenerated, d_confidence = totalScore,
          d_aiProbability = min (totalScore + 1 / 10) 1 \<rparr>)"

definition hasHumanIndicators :: "AIDetectionConfig \<Rightarrow> EnhancedChangeEvent list \<Rightarrow> bool" where
  "hasHumanIndicators cfg changes =
     list_ex (\<lambda>change. instantTypingSpeed change > 0 \<and>
                instantTypingSpeed change < fastTypingSpeed (thresholds cfg) \<and>
                contentLength change < 50) changes"

definition hasAIIndicators :: "AIDetectionConfig \<Rightarrow> EnhancedChangeEvent list \<Rightarrow> bool" where
  "hasAIIndicators cfg changes =
     list_ex (\<lambda>change. sigDetected change \<or>
                (contentLength change > bulkInsertionSize (thresholds cfg) \<and>
                 timeSinceLastChange change < pasteTimeThreshold (thresholds cfg))) changes"

definition makeFinalDecision ::
    "AIDetectionConfig \<Rightarrow> (string \<times> WeightedScore) list \<Rightarrow> EnhancedChangeEvent list
       \<Rightarrow> FinalDecision" where
  "makeFinalDecision cfg weightedScores changes =
     (let totalScore = totalWeightedScore weightedScores;
          d = decideByThreshold cfg totalScore
      in if hasHumanIndicators cfg changes \<and> hasAIIndicators cfg changes
              \<and> d_source d \<noteq> Human
         then d \<lparr> d_source := Mixed, d_confidence := min (d_confidence d) (8 / 10) \<rparr>
         else d)"

subsection \<open>Evidence and timeline\<close>

text \<open>
  \<^verbatim>\<open>change.content ? change.content.substring(0, n) + (change.content.length > n ? '...' : '')
  : `[${change.contentLength} chars]`\<close>; an absent or empty content is falsy.
\<close>

definition previewOf :: "nat \<Rightarrow> EnhancedChangeEvent \<Rightarrow> Preview" where
  "previewOf n change =
     (case content change of
        None \<Rightarrow> CharsPlaceholder (contentLength change)
      | Some s \<Rightarrow>
          (if s = [] then CharsPlaceholder (contentLength change)
           else Excerpt (take n s @ (if length s > n then ''...'' else []))))"

definition extractContentCharacteristics :: "EnhancedChangeEvent list \<Rightarrow> string list" where
  "extractContentCharacteristics changes =
     (if list_ex isCodeBlock changes then [''contains-code-blocks''] else [])
     @ (if list_ex isComment changes then [''contains-comments''] else [])
     @ (if list_ex (\<lambda>change. languageConstruct change = ''function'') changes
        then [''contains-functions''] else [])
     @ (if list_ex (\<lambda>change. languageConstruct change = ''class'') changes
        then [''contains-classes''] else [])"

text \<open>\<^verbatim>\<open>change.content?.includes('\n')\<close>: false when the content is absent.\<close>

definition contentHasNewline :: "EnhancedChangeEvent \<Rightarrow> bool" where
  "contentHasNewline change =
     (case content change of None \<Rightarrow> False | Some s \<Rightarrow> CHR 0x0A \<in> set s)"

definition identifySuspiciousPatterns ::
    "AIDetectionConfig \<Rightarrow> EnhancedChangeEvent list \<Rightarrow> string list" where
  "identifySuspiciousPatterns cfg changes =
     (if list_ex (\<lambda>change. contentLength change > bulkInsertionSize (thresholds cfg) \<and>
                    timeSinceLastChange change < pasteTimeThreshold (thresholds cfg)) changes
      then [''rapid-large-insertion''] else [])
     @ (if list_ex (\<lambda>change. contentLength change > bulkInsertionSize (thresholds cfg) \<and>
                      contentHasNewline change \<and> indentationLevel change > 0) changes
        then [''formatted-bulk-code''] else [])"

definition extractEvidence :: "AIDetectionConfig \<Rightarrow> EnhancedChangeEvent list \<Rightarrow> AIEvidence" where
  "extractEvidence cfg changes =
     (let bulk = map (\<lambda>change. \<lparr> size = contentLength change,
                                 timespan = timeSinceLastChange change,
                                 bulk_content = previewOf 100 change \<rparr>)
                   (filter (\<lambda>change. contentLength change > bulkInsertionSize (thresholds cfg))
                      changes);
          bursts = map (\<lambda>change. \<lparr> speed = instantTypingSpeed change,
                                   burst_duration = timeSinceLastChange change,
                                   burst_content = previewOf 50 change \<rparr>)
                     (filter burstDetected changes);
          extIndicators = concat (map (\<lambda>change. case externalToolSignature change of
                                                  None \<Rightarrow> [] | Some s \<Rightarrow> indicators s)
                                    (filter sigDetected changes))
      in \<lparr> ev_externalToolSignature = list_ex sigDetected changes,
           bulkChangePattern = (length bulk > 0),
           timingAnomalies = list_ex (\<lambda>change.
               timeSinceLastChange change > longPauseThreshold (thresholds cfg) \<or>
               (timeSinceLastChange change < rapidSequenceThreshold (thresholds cfg) \<and>
                timeSinceLastChange change > 0)) changes,
           contentCharacteristics = extractContentCharacteristics changes,
           bulkChanges = bulk,
           typingBursts = bursts,
           externalIndicators = extIndicators,
           suspiciousPatterns = identifySuspiciousPatterns cfg changes \<rparr>)"

text \<open>The projection of one detected event into \<^verbatim>\<open>externalEvents\<close>.\<close>

definition toExternalChangeEvent :: "EnhancedChangeEvent \<Rightarrow> ExternalChangeEvent" where
  "toExternalChangeEvent change =
     \<lparr> x_timestamp = timestamp change,
       x_fileUri = fileUri change,
       x_changeType = (if contentLength change > 200 then BulkInsert else StructuredEdit),
       x_contentLength = contentLength change,
       detectedTool = (case externalToolSignature change of
                         None \<Rightarrow> ''unknown''
                       | Some s \<Rightarrow> (if toolType s = [] then ''unknown'' else toolType s)),
       x_confidence = sigConfidenceOrZero change \<rparr>"

text \<open>The loop \<^verbatim>\<open>for (let i = 1; i < changes.length; i++)\<close> over consecutive pairs.\<close>

fun timelineGaps :: "EnhancedChangeEvent list \<Rightarrow> TimeGap list" where
  "timelineGaps (prev # cur # rest) =
     (let gap = timestamp cur - timestamp prev
      in (if gap > 10000
          then [\<lparr> gap_startTime = timestamp prev, gap_endTime = timestamp cur, duration = gap,
                  likelyActivity = (if gap > 300000 then ''extended-break''
                                    else ''thinking-pause'') \<rparr>]
          else [])
         @ timelineGaps (cur # rest))"
| "timelineGaps _ = []"

definition extractTimeline :: "EnhancedChangeEvent list \<Rightarrow> AITimeline" where
  "extractTimeline changes =
     \<lparr> vsCodeEvents = changes,
       externalEvents = map toExternalChangeEvent (filter sigDetected changes),
       gaps = timelineGaps changes \<rparr>"

definition createEmptyAttribution :: AIAttribution where
  "createEmptyAttribution =
     \<lparr> source = Human, confidence = 0, aiProbability = 0,
       evidence = \<lparr> ev_externalToolSignature = False, bulkChangePattern = False,
                    timingAnomalies = False, contentCharacteristics = [],
                    bulkChanges = [], typingBursts = [], externalIndicators = [],
                    suspiciousPatterns = [] \<rparr>,
       timeline = \<lparr> vsCodeEvents = [], externalEvents = [], gaps = [] \<rparr> \<rparr>"

definition analyze :: "AIDetectionConfig \<Rightarrow> EnhancedChangeEvent list \<Rightarrow> AIAttribution" where
  "analyze cfg changes =
     (if length changes = 0 then createEmptyAttribution
      else
        let heuristicScores = calculateHeuristicScores cfg changes;
            weightedScores = combineScores cfg heuristicScores;
            finalResult = makeFinalDecision cfg weightedScores changes
        in \<lparr> source = d_source finalResult,
             confidence = d_confidence finalResult,
             aiProbability = d_aiProbability finalResult,
             evidence = extractEvidence cfg changes,
             timeline = extractTimeline changes \<rparr>)"

section \<open>Bucket analyzer\<close>

record TimeBucket =
  startTime :: real
  endTime :: real
  events :: "EnhancedChangeEvent list"
  bucket_aiProbability :: "real option"
  heuristicScores :: "HeuristicScores option"
  eventCount :: nat
  isEmpty :: bool
  attribution :: "AIAttribution option"

definition DEFAULT_BUCKET_CONFIG :: BucketConfig where
  "DEFAULT_BUCKET_CONFIG =
     \<lparr> intervalMinutes = 15, aggregationMethod = Average, minEventsPerBucket = 1 \<rparr>"

text \<open>
  The loop \<^verbatim>\<open>for (let time = startTime; time < endTime; time += intervalMs)\<close> of
  \<^verbatim>\<open>createBuckets\<close>, with the array \<^verbatim>\<open>buckets\<close> as accumulator. With an interval that
  is not positive the loop never leaves a window that starts before \<^verbatim>\<open>endTime\<close>, so
  the result is optional: \<^term>\<open>None\<close> stands for a call that does not return.
\<close>

partial_function (option) createBucketsLoop ::
    "EnhancedChangeEvent list \<Rightarrow> BucketConfig \<Rightarrow> real \<Rightarrow> real \<Rightarrow> real
       \<Rightarrow> TimeBucket list \<Rightarrow> TimeBucket list option" where
  "createBucketsLoop evs config intervalMs endT time buckets =
     (if time < endT then
        let bucketEvents = filter (\<lambda>e. timestamp e \<ge> time \<and> timestamp e < time + intervalMs) evs
        in createBucketsLoop evs config intervalMs endT (time + intervalMs)
             (buckets @ [\<lparr> startTime = time,
                           endTime = time + intervalMs,
                           events = bucketEvents,
                           bucket_aiProbability = None,
                           heuristicScores = None,
                           eventCount = length bucketEvents,
                           isEmpty = (real (length bucketEvents) < minEventsPerBucket config),
                           attribution = None \<rparr>])
      else Some buckets)"

definition createBuckets ::
    "EnhancedChangeEvent list \<Rightarrow> BucketConfig \<Rightarrow> TimeBucket list option" where
  "createBuckets evs config =
     (if length evs = 0 then Some []
      else
        let intervalMs = intervalMinutes config * 60 * 1000;
            startT = timestamp (hd evs);
            endT = timestamp (last evs)
        in createBucketsLoop evs config intervalMs endT startT [])"

text \<open>
  How many of the half-open windows \<open>[startTime, endTime)\<close> of a bucket list contain
  a timestamp, and in how many of the buckets' event lists an event occurs.
\<close>

definition windowsContaining :: "TimeBucket list \<Rightarrow> real \<Rightarrow> nat" where
  "windowsContaining buckets t =
     length (filter (\<lambda>b. startTime b \<le> t \<and> t < endTime b) buckets)"

definition bucketsHolding :: "TimeBucket list \<Rightarrow> EnhancedChangeEvent \<Rightarrow> nat" where
  "bucketsHolding buckets e = length (filter (\<lambda>b. e \<in> set (events b)) buckets)"

text \<open>The bucket that the loop body appends for the window starting at \<open>time\<close>.\<close>

definition bucketAt ::
    "EnhancedChangeEvent list \<Rightarrow> BucketConfig \<Rightarrow> real \<Rightarrow> real \<Rightarrow> TimeBucket" where
  "bucketAt evs config intervalMs time =
     (let bucketEvents = filter (\<lambda>e. timestamp e \<ge> time \<and> timestamp e < time + intervalMs) evs
      in \<lparr> startTime = time,
           endTime = time + intervalMs,
           events = bucketEvents,
           bucket_aiProbability = None,
           heuristicScores = None,
           eventCount = length bucketEvents,
           isEmpty = (real (length bucketEvents) < minEventsPerBucket config),
           attribution = None \<rparr>)"

section \<open>Configuration validator\<close>

text \<open>
  \<^verbatim>\<open>validateAIDetectionConfig\<close> is a type guard on \<^verbatim>\<open>any\<close>, so its argument is an
  untyped JavaScript value. A number is a finite value, \<^verbatim>\<open>NaN\<close> or one of the two
  infinities; an object is its table of own properties (an array is an object too).
\<close>

datatype jsnum = Finite real | NaN | PosInfinity | NegInfinity

datatype jsval =
    JUndefined
  | JNull
  | JBool bool
  | JNum jsnum
  | JStr string
  | JFunction
  | JObj "(string \<times> jsval) list"

fun typeof :: "jsval \<Rightarrow> string" where
  "typeof JUndefined = ''undefined''"
| "typeof JNull = ''object''"
| "typeof (JBool _) = ''boolean''"
| "typeof (JNum _) = ''number''"
| "typeof (JStr _) = ''string''"
| "typeof JFunction = ''function''"
| "typeof (JObj _) = ''object''"

text \<open>
  The ways a call can fail to produce a boolean: a thrown \<^verbatim>\<open>TypeError\<close>, and a
  comparison between values that are not both numbers, whose coercion rules are outside
  this model. Neither is ever reached (lemma \<open>validateAIDetectionConfig_returns\<close>).
\<close>

datatype js_error = TypeError | CoercionNotModelled

text \<open>
  Property read \<^verbatim>\<open>v[k]\<close>. Reading a property of \<^verbatim>\<open>undefined\<close> or \<^verbatim>\<open>null\<close> throws; a
  key that an object does not have reads as \<^verbatim>\<open>undefined\<close>, and so do the keys used here
  on a primitive or a function.
\<close>

fun getProp :: "jsval \<Rightarrow> string \<Rightarrow> js_error + jsval" where
  "getProp JUndefined k = Inl TypeError"
| "getProp JNull k = Inl TypeError"
| "getProp (JObj props) k = Inr (case map_of props k of None \<Rightarrow> JUndefined | Some v \<Rightarrow> v)"
| "getProp _ k = Inr JUndefined"

text \<open>The relational operators on numbers: every comparison with \<^verbatim>\<open>NaN\<close> is false.\<close>

fun numLess :: "jsnum \<Rightarrow> jsnum \<Rightarrow> bool" where
  "numLess NaN _ = False"
| "numLess _ NaN = False"
| "numLess (Finite a) (Finite b) = (a < b)"
| "numLess (Finite _) PosInfinity = True"
| "numLess (Finite _) NegInfinity = False"
| "numLess PosInfinity _ = False"
| "numLess NegInfinity NegInfinity = False"
| "numLess NegInfinity _ = True"

definition numGreater :: "jsnum \<Rightarrow> jsnum \<Rightarrow> bool" where
  "numGreater a b = numLess b a"

definition numGreaterEq :: "jsnum \<Rightarrow> jsnum \<Rightarrow> bool" where
  "numGreaterEq a b = (a \<noteq> NaN \<and> b \<noteq> NaN \<and> \<not> numLess a b)"

text \<open>
  \<^verbatim>\<open>typeof v !== 'number' || v < 0 || v > 1\<close> and \<^verbatim>\<open>typeof v !== 'number' || v < 0\<close>:
  the comparisons are only reached for a number.
\<close>

fun outsideUnit :: "jsval \<Rightarrow> bool" where
  "outsideUnit (JNum n) = (numLess n (Finite 0) \<or> numGreater n (Finite 1))"
| "outsideUnit v = (typeof v \<noteq> ''number'')"

fun negativeOrNoNumber :: "jsval \<Rightarrow> bool" where
  "negativeOrNoNumber (JNum n) = numLess n (Finite 0)"
| "negativeOrNoNumber v = (typeof v \<noteq> ''number'')"

text \<open>
  The scan \<^verbatim>\<open>for (const k of required) { if (bad(obj[k])) return false; }\<close>: whether
  some required key, taken in order, holds a bad value.
\<close>

fun anyBad :: "(jsval \<Rightarrow> bool) \<Rightarrow> jsval \<Rightarrow> string list \<Rightarrow> js_error + bool" where
  "anyBad bad obj [] = Inr False"
| "anyBad bad obj (k # ks) =
     (case getProp obj k of
        Inl err \<Rightarrow> Inl err
      | Inr v \<Rightarrow> (if bad v then Inr True else anyBad bad obj ks))"

definition requiredWeights :: "string list" where
  "requiredWeights = [''bulkInsertionScore'', ''typingSpeedScore'', ''pastePatternScore'',
                      ''externalToolScore'', ''contentPatternScore'', ''timingAnomalyScore'']"

definition requiredThresholds :: "string list" where
  "requiredThresholds = [''bulkInsertionSize'', ''fastTypingSpeed'', ''pasteTimeThreshold'',
                         ''longPauseThreshold'', ''rapidSequenceThreshold'']"

definition requiredClassification :: "string list" where
  "requiredClassification = [''humanThreshold'', ''aiAssistedThreshold'', ''aiGeneratedThreshold'']"

text \<open>
  \<^verbatim>\<open>typeof v !== 'object' || v === null\<close>
\<close>

definition notAnObject :: "jsval \<Rightarrow> bool" where
  "notAnObject v = (typeof v \<noteq> ''object'' \<or> v = JNull)"

text \<open>
  The final order check
  \<^verbatim>\<open>c.humanThreshold >= c.aiAssistedThreshold || c.aiAssistedThreshold >= c.aiGeneratedThreshold\<close>,
  reached only when all three values are numbers.
\<close>

definition outOfOrder :: "jsval \<Rightarrow> js_error + bool" where
  "outOfOrder c =
     (case getProp c ''humanThreshold'' of Inl err \<Rightarrow> Inl err | Inr h \<Rightarrow>
      case getProp c ''aiAssistedThreshold'' of Inl err \<Rightarrow> Inl err | Inr a \<Rightarrow>
      case getProp c ''aiGeneratedThreshold'' of Inl err \<Rightarrow> Inl err | Inr g \<Rightarrow>
        (case (h, a, g) of
           (JNum hn, JNum an, JNum gn) \<Rightarrow>
             Inr (numGreaterEq hn an \<or> numGreaterEq an gn)
         | _ \<Rightarrow> Inl CoercionNotModelled))"

definition validateAIDetectionConfig :: "jsval \<Rightarrow> js_error + bool" where
  "validateAIDetectionConfig config =
     (if notAnObject config then Inr False
      else
        case getProp config ''weights'' of Inl err \<Rightarrow> Inl err | Inr w \<Rightarrow>
        if notAnObject w then Inr False
        else
          case anyBad outsideUnit w requiredWeights of Inl err \<Rightarrow> Inl err | Inr badWeight \<Rightarrow>
          if badWeight then Inr False
          else
            case getProp config ''thresholds'' of Inl err \<Rightarrow> Inl err | Inr t \<Rightarrow>
            if notAnObject t then Inr False
            else
              case anyBad negativeOrNoNumber t requiredThresholds of
                Inl err \<Rightarrow> Inl err | Inr badThreshold \<Rightarrow>
              if badThreshold then Inr False
              else
                case getProp config ''classification'' of Inl err \<Rightarrow> Inl err | Inr c \<Rightarrow>
                if notAnObject c then Inr False
                else
                  case anyBad outsideUnit c requiredClassification of
                    Inl err \<Rightarrow> Inl err | Inr badCutoff \<Rightarrow>
                  if badCutoff then Inr False
                  else
                    case outOfOrder c of Inl err \<Rightarrow> Inl err | Inr unordered \<Rightarrow>
                    if unordered then Inr False else Inr True)"

text \<open>
  The rule the specification states for a valid configuration: a non-null object whose
  six weights are numbers in \<open>[0, 1]\<close>, whose five thresholds are numbers that are at
  least 0, and whose three cutoffs are numbers in \<open>[0, 1]\<close>, strictly increasing.
\<close>

fun inUnitInterval :: "jsval \<Rightarrow> bool" where
  "inUnitInterval (JNum (Finite r)) = (0 \<le> r \<and> r \<le> 1)"
| "inUnitInterval _ = False"

fun atLeastZero :: "jsval \<Rightarrow> bool" where
  "atLeastZero (JNum (Finite r)) = (0 \<le> r)"
| "atLeastZero (JNum PosInfinity) = True"
| "atLeastZero _ = False"

fun strictlyBelow :: "jsval \<Rightarrow> jsval \<Rightarrow> bool" where
  "strictlyBelow (JNum (Finite a)) (JNum (Finite b)) = (a < b)"
| "strictlyBelow _ _ = False"

text \<open>The value an object holds under a key; \<^verbatim>\<open>undefined\<close> for a missing key or a non-object.\<close>

definition ownProperty :: "jsval \<Rightarrow> string \<Rightarrow> jsval" where
  "ownProperty v k =
     (case v of
        JObj props \<Rightarrow> (case map_of props k of None \<Rightarrow> JUndefined | Some x \<Rightarrow> x)
      | _ \<Rightarrow> JUndefined)"

definition validConfigRule :: "jsval \<Rightarrow> bool" where
  "validConfigRule config =
     ((case config of JObj _ \<Rightarrow> True | _ \<Rightarrow> False)
      \<and> list_all (\<lambda>k. inUnitInterval (ownProperty (ownProperty config ''weights'') k)) requiredWeights
      \<and> list_all (\<lambda>k. atLeastZero (ownProperty (ownProperty config ''thresholds'') k)) requiredThresholds
      \<and> list_all (\<lambda>k. inUnitInterval (ownProperty (ownProperty config ''classification'') k))
           requiredClassification
      \<and> strictlyBelow (ownProperty (ownProperty config ''classification'') ''humanThreshold'')
                      (ownProperty (ownProperty config ''classification'') ''aiAssistedThreshold'')
      \<and> strictlyBelow (ownProperty (ownProperty config ''classification'') ''aiAssistedThreshold'')
                      (ownProperty (ownProperty config ''classification'') ''aiGeneratedThreshold''))"

section \<open>Review quality scorer\<close>

record ReviewScoreBreakdown =
  timeInvestment :: real
  iterationCount :: real
  externalToolUsage :: real
  humanRefinement :: real
  timeInvestmentScore :: real
  iterationScore :: real
  refinementScore :: real
  thoughtfulnessScore :: real
  finalScore :: real

record ReviewPatterns =
  immediateCommit :: bool
  multiSessionReview :: bool
  crossToolCollaboration :: bool
  incrementalRefinement :: bool
  multipleEditSessions :: bool
  pausesForReflection :: bool
  commentaryAdded :: bool
  codeRestructuring :: bool
  testingEvidence :: bool

record EditTimelineEntry =
  entry_timestamp :: real
  editType :: string
  significance :: real

record PauseEntry =
  pause_duration :: real
  pause_context :: string
  pause_likelyActivity :: string

record ReviewEvidence =
  editTimeline :: "EditTimelineEntry list"
  pauseAnalysis :: "PauseEntry list"
  refinementExamples :: "string list"

record TimeMetrics =
  totalDevelopmentTime :: real
  timeBeforeFirstCommit :: real
  numberOfEditSessions :: nat
  averageSessionLength :: real
  longestPauseBetweenEdits :: real
  editingVelocityOverTime :: "nat list"

record EditPatterns =
  incrementalEdits :: nat
  bulkReplacements :: nat
  refinementEdits :: nat
  commentAdditions :: nat
  variableRenames :: nat
  structuralChanges :: nat

record ReviewIndicators =
  ri_multipleEditSessions :: bool
  ri_pausesForReflection :: bool
  ri_incrementalRefinement :: bool
  ri_commentaryAdded :: bool
  ri_codeRestructuring :: bool
  ri_testingEvidence :: bool

record EditSession =
  session_start :: real
  session_end :: real
  session_duration :: real
  changeCount :: nat

datatype QualityLevel = ImmediateCommit | LightReview | ThoroughReview | ExtensiveReview

record ReviewQualityAssessment =
  overallScore :: real
  breakdown :: ReviewScoreBreakdown
  patterns :: ReviewPatterns
  review_evidence :: ReviewEvidence
  qualityLevel :: QualityLevel
  review_confidence :: real

record CommitInfo =
  commitTime :: real

subsection \<open>Time metrics\<close>

text \<open>
  The loop of \<^verbatim>\<open>identifyEditSessions\<close> from index 1, with its four mutable variables and
  the timestamp of the previous change as arguments.
\<close>

fun editSessionsLoop ::
    "real \<Rightarrow> real \<Rightarrow> real \<Rightarrow> nat \<Rightarrow> real \<Rightarrow> EnhancedChangeEvent list
       \<Rightarrow> EditSession list \<Rightarrow> EditSession list" where
  "editSessionsLoop gapThreshold sessionStart sessionEnd sessionChangeCount prev [] sessions =
     sessions @ [\<lparr> session_start = sessionStart, session_end = sessionEnd,
                   session_duration = sessionEnd - sessionStart,
                   changeCount = sessionChangeCount \<rparr>]"
| "editSessionsLoop gapThreshold sessionStart sessionEnd sessionChangeCount prev (c # rest) sessions =
     (if timestamp c - prev > gapThreshold
      then editSessionsLoop gapThreshold (timestamp c) (timestamp c) 1 (timestamp c) rest
             (sessions @ [\<lparr> session_start = sessionStart, session_end = sessionEnd,
                             session_duration = sessionEnd - sessionStart,
                             changeCount = sessionChangeCount \<rparr>])
      else editSessionsLoop gapThreshold sessionStart (timestamp c) (sessionChangeCount + 1)
             (timestamp c) rest sessions)"

definition identifyEditSessions :: "EnhancedChangeEvent list \<Rightarrow> real \<Rightarrow> EditSession list" where
  "identifyEditSessions changes gapThreshold =
     (case changes of
        [] \<Rightarrow> []
      | c # rest \<Rightarrow>
          editSessionsLoop gapThreshold (timestamp c) (timestamp c) 1 (timestamp c) rest [])"

text \<open>\<^verbatim>\<open>changes[i].timestamp - changes[i - 1].timestamp\<close> for \<open>i\<close> from 1.\<close>

fun pausesBetween :: "EnhancedChangeEvent list \<Rightarrow> real list" where
  "pausesBetween (prev # cur # rest) = (timestamp cur - timestamp prev) # pausesBetween (cur # rest)"
| "pausesBetween _ = []"

text \<open>
  The window loop of \<^verbatim>\<open>calculateEditingVelocity\<close>; the window size is the positive
  constant of five minutes, so the loop ends.
\<close>

function editingVelocityLoop ::
    "EnhancedChangeEvent list \<Rightarrow> real \<Rightarrow> real \<Rightarrow> nat list \<Rightarrow> nat list" where
  "editingVelocityLoop changes endT windowStart velocity =
     (if windowStart < endT then
        editingVelocityLoop changes endT (windowStart + 300000)
          (velocity @ [length (filter (\<lambda>change. timestamp change \<ge> windowStart \<and>
                                          timestamp change < windowStart + 300000) changes)])
      else velocity)"
  by pat_completeness auto
termination
proof (relation "measure (\<lambda>(changes, endT, windowStart, velocity).
                    nat \<lceil>(endT - windowStart) / 300000\<rceil>)")
  show "wf (measure (\<lambda>(changes :: EnhancedChangeEvent list, endT :: real, windowStart :: real,
                       velocity :: nat list). nat \<lceil>(endT - windowStart) / 300000\<rceil>))"
    by simp
next
  fix changes :: "EnhancedChangeEvent list" and endT windowStart :: real and velocity :: "nat list"
  assume less: "windowStart < endT"
  have shift: "(endT - (windowStart + 300000)) / 300000 = (endT - windowStart) / 300000 - 1"
    by (simp add: field_simps)
  have pos: "0 < \<lceil>(endT - windowStart) / 300000\<rceil>"
    using less by simp
  have "\<lceil>(endT - (windowStart + 300000)) / 300000\<rceil> = \<lceil>(endT - windowStart) / 300000\<rceil> - 1"
    unfolding shift by simp
  with pos have "nat \<lceil>(endT - (windowStart + 300000)) / 300000\<rceil>
                   < nat \<lceil>(endT - windowStart) / 300000\<rceil>"
    by simp
  then show "((changes, endT, windowStart + 300000,
               velocity @ [length (filter (\<lambda>change. timestamp change \<ge> windowStart \<and>
                                             timestamp change < windowStart + 300000) changes)]),
              (changes, endT, windowStart, velocity))
             \<in> measure (\<lambda>(changes, endT, windowStart, velocity).
                    nat \<lceil>(endT - windowStart) / 300000\<rceil>)"
    by simp
qed

definition calculateEditingVelocity :: "EnhancedChangeEvent list \<Rightarrow> nat list" where
  "calculateEditingVelocity changes =
     (if length changes = 0 then []
      else editingVelocityLoop changes (timestamp (last changes)) (timestamp (hd changes)) [])"

definition calculateTimeMetrics ::
    "EnhancedChangeEvent list \<Rightarrow> CommitInfo option \<Rightarrow> TimeMetrics" where
  "calculateTimeMetrics changes commitInfo =
     (if length changes = 0 then
        \<lparr> totalDevelopmentTime = 0, timeBeforeFirstCommit = 0, numberOfEditSessions = 0,
          averageSessionLength = 0, longestPauseBetweenEdits = 0,
          editingVelocityOverTime = [] \<rparr>
      else
        let firstChange = timestamp (hd changes);
            lastChange = timestamp (last changes);
            sessions = identifyEditSessions changes (30 * 60 * 1000);
            pauses = pausesBetween changes
        in \<lparr> totalDevelopmentTime = lastChange - firstChange,
             timeBeforeFirstCommit =
               (case commitInfo of None \<Rightarrow> 0 | Some ci \<Rightarrow> commitTime ci - lastChange),
             numberOfEditSessions = length sessions,
             averageSessionLength =
               (if length sessions > 0
                then foldl (\<lambda>sum session. sum + session_duration session) 0 sessions
                       / real (length sessions)
                else 0),
             longestPauseBetweenEdits =
               (case pauses of [] \<Rightarrow> 0 | p # ps \<Rightarrow> fold max ps p),
             editingVelocityOverTime = calculateEditingVelocity changes \<rparr>)"

subsection \<open>Edit patterns and review indicators\<close>

definition isWordChar :: "char \<Rightarrow> bool" where
  "isWordChar c =
     (let n = (of_char c :: nat)
      in (65 \<le> n \<and> n \<le> 90) \<or> (97 \<le> n \<and> n \<le> 122) \<or> (48 \<le> n \<and> n \<le> 57) \<or> n = 95)"

definition isIdentifierStart :: "char \<Rightarrow> bool" where
  "isIdentifierStart c =
     (let n = (of_char c :: nat)
      in (65 \<le> n \<and> n \<le> 90) \<or> (97 \<le> n \<and> n \<le> 122) \<or> n = 95)"

text \<open>
  \<^verbatim>\<open>/\b[a-zA-Z_][a-zA-Z0-9_]*\b/.test(s)\<close>: some run of word characters starts with a
  letter or an underscore; the flag says whether the previous character was a word
  character.
\<close>

fun looksLikeIdentifier :: "bool \<Rightarrow> string \<Rightarrow> bool" where
  "looksLikeIdentifier prevWord [] = False"
| "looksLikeIdentifier prevWord (c # cs) =
     ((\<not> prevWord \<and> isIdentifierStart c) \<or> looksLikeIdentifier (isWordChar c) cs)"

text \<open>\<^verbatim>\<open>change.content\<close> used as a condition: present and not empty.\<close>

definition contentTruthy :: "EnhancedChangeEvent \<Rightarrow> bool" where
  "contentTruthy change = (case content change of None \<Rightarrow> False | Some s \<Rightarrow> s \<noteq> [])"

definition analyzeEditPatterns :: "EnhancedChangeEvent list \<Rightarrow> EditPatterns" where
  "analyzeEditPatterns changes =
     \<lparr> incrementalEdits = length (filter (\<lambda>change.
           contentLength change < 50 \<and> changeType change \<noteq> Delete) changes),
       bulkReplacements = length (filter (\<lambda>change.
           changeType change = Replace \<and> contentLength change > 100) changes),
       refinementEdits = length (filter (\<lambda>change.
           timeSinceLastChange change > 10000 \<and> contentLength change < 100) changes),
       commentAdditions = length (filter isComment changes),
       variableRenames = length (filter (\<lambda>change.
           changeType change = Replace \<and> contentLength change < 50 \<and>
           contentTruthy change \<and>
           (case content change of None \<Rightarrow> False | Some s \<Rightarrow> looksLikeIdentifier False s))
           changes),
       structuralChanges = length (filter (\<lambda>change.
           languageConstruct change \<noteq> ''unknown'' \<and> changeType change = Replace) changes) \<rparr>"

definition toLowerChar :: "char \<Rightarrow> char" where
  "toLowerChar c =
     (let n = (of_char c :: nat) in if 65 \<le> n \<and> n \<le> 90 then char_of (n + 32) else c)"

fun includesStr :: "string \<Rightarrow> string \<Rightarrow> bool" where
  "includesStr [] sub = (sub = [])"
| "includesStr (c # cs) sub = (take (length sub) (c # cs) = sub \<or> includesStr cs sub)"

text \<open>\<^verbatim>\<open>change.content?.toLowerCase().includes(word)\<close>: false when the content is absent.\<close>

definition contentMentions :: "EnhancedChangeEvent \<Rightarrow> string \<Rightarrow> bool" where
  "contentMentions change word =
     (case content change of None \<Rightarrow> False | Some s \<Rightarrow> includesStr (map toLowerChar s) word)"

text \<open>
  The indexed filter of \<^verbatim>\<open>identifyReviewIndicators\<close>: the changes, from index 1, that
  come after a gap of more than five seconds and are smaller than their predecessor.
\<close>

fun smallerAfterGap :: "EnhancedChangeEvent list \<Rightarrow> EnhancedChangeEvent list" where
  "smallerAfterGap (prevChange # change # rest) =
     (if timeSinceLastChange change > 5000 \<and> contentLength change < contentLength prevChange
      then [change] else [])
     @ smallerAfterGap (change # rest)"
| "smallerAfterGap _ = []"

definition identifyReviewIndicators ::
    "EnhancedChangeEvent list \<Rightarrow> TimeMetrics \<Rightarrow> ReviewIndicators" where
  "identifyReviewIndicators changes timeMetrics =
     \<lparr> ri_multipleEditSessions = (numberOfEditSessions timeMetrics > 1),
       ri_pausesForReflection = list_ex (\<lambda>change. timeSinceLastChange change > 60000) changes,
       ri_incrementalRefinement = (length (smallerAfterGap changes) > 2),
       ri_commentaryAdded = list_ex isComment changes,
       ri_codeRestructuring = list_ex (\<lambda>change.
           changeType change = Replace \<and> contentLength change > 50 \<and>
           languageConstruct change \<noteq> ''unknown'') changes,
       ri_testingEvidence = list_ex (\<lambda>change.
           contentMentions change ''test'' \<or> contentMentions change ''spec'' \<or>
           contentMentions change ''assert'') changes \<rparr>"

subsection \<open>Scoring\<close>

definition calculateScoreBreakdown ::
    "TimeMetrics \<Rightarrow> EditPatterns \<Rightarrow> ReviewIndicators \<Rightarrow> ReviewScoreBreakdown" where
  "calculateScoreBreakdown timeMetrics editPatterns reviewIndicators =
     (let timeScore =
            (if totalDevelopmentTime timeMetrics > 30 * 60 * 1000 then 1 else 0)
          + (if totalDevelopmentTime timeMetrics > 2 * 60 * 60 * 1000 then 1 else 0)
          + (if timeBeforeFirstCommit timeMetrics > 10 * 60 * 1000 then 1 else 0);
          iterScore =
            (if ri_multipleEditSessions reviewIndicators then 1 else 0)
          + (if refinementEdits editPatterns > 2 then 1 else 0)
          + (if ri_incrementalRefinement reviewIndicators then 1 else 0);
          refScore =
            (if commentAdditions editPatterns > 0 then 1 / 2 else 0)
          + (if variableRenames editPatterns > 0 then 1 / 2 else 0)
          + (if ri_codeRestructuring reviewIndicators then 1 / 2 else 0)
          + (if ri_testingEvidence reviewIndicators then 1 / 2 else 0);
          thoughtScore =
            (if ri_pausesForReflection reviewIndicators then 1 else 0)
          + (if longestPauseBetweenEdits timeMetrics > 5 * 60 * 1000 then 1 else 0)
      in \<lparr> timeInvestment = totalDevelopmentTime timeMetrics,
           iterationCount = real (numberOfEditSessions timeMetrics),
           externalToolUsage = 0,
           humanRefinement = real (refinementEdits editPatterns),
           timeInvestmentScore = timeScore,
           iterationScore = iterScore,
           refinementScore = refScore,
           thoughtfulnessScore = thoughtScore,
           finalScore = timeScore + iterScore + refScore + thoughtScore \<rparr>)"

definition determineQualityLevel :: "real \<Rightarrow> QualityLevel" where
  "determineQualityLevel score =
     (if score \<le> 2 then ImmediateCommit
      else if score \<le> 5 then LightReview
      else if score \<le> 8 then ThoroughReview
      else ExtensiveReview)"

definition calculateConfidence ::
    "EnhancedChangeEvent list \<Rightarrow> ReviewScoreBreakdown \<Rightarrow> real" where
  "calculateConfidence changes scoreBreakdown =
     (let c0 = 7 / 10;
          c1 = (if length changes > 10 then c0 + 1 / 10 else c0);
          c2 = (if length changes > 50 then c1 + 1 / 10 else c1);
          c3 = (if finalScore scoreBreakdown \<le> 2 \<or> finalScore scoreBreakdown \<ge> 8
                then c2 + 1 / 10 else c2)
      in min c3 1)"

definition changeTypeName :: "ChangeType \<Rightarrow> string" where
  "changeTypeName t = (case t of Insert \<Rightarrow> ''insert'' | Delete \<Rightarrow> ''delete'' | Replace \<Rightarrow> ''replace'')"

text \<open>The pause loop of the review scorer's \<^verbatim>\<open>extractEvidence\<close>.\<close>

fun pauseEntries :: "EnhancedChangeEvent list \<Rightarrow> PauseEntry list" where
  "pauseEntries (prev # cur # rest) =
     (let pause = timestamp cur - timestamp prev
      in (if pause > 30000
          then [\<lparr> pause_duration = pause,
                  pause_context = languageConstruct prev,
                  pause_likelyActivity =
                    (if pause > 300000 then ''extended-break''
                     else if pause > 60000 then ''thinking-reviewing''
                     else ''brief-pause'') \<rparr>]
          else [])
         @ pauseEntries (cur # rest))"
| "pauseEntries _ = []"

definition extractReviewEvidence ::
    "EnhancedChangeEvent list \<Rightarrow> TimeMetrics \<Rightarrow> ReviewEvidence" where
  "extractReviewEvidence changes timeMetrics =
     \<lparr> editTimeline = map (\<lambda>change.
           \<lparr> entry_timestamp = timestamp change,
             editType = changeTypeName (changeType change) @ ''-'' @ languageConstruct change,
             significance = (if contentLength change > 100 then 3
                             else if contentLength change > 20 then 2 else 1) \<rparr>) changes,
       pauseAnalysis = pauseEntries changes,
       refinementExamples =
         take 5 (map (\<lambda>change. take 50 (case content change of None \<Rightarrow> [] | Some s \<Rightarrow> s))
                   (filter (\<lambda>change. timeSinceLastChange change > 10000 \<and>
                                     contentLength change < 100 \<and> contentTruthy change)
                      changes)) \<rparr>"

definition createPatterns ::
    "ReviewIndicators \<Rightarrow> TimeMetrics \<Rightarrow> EditPatterns \<Rightarrow> ReviewPatterns" where
  "createPatterns reviewIndicators timeMetrics editPatterns =
     \<lparr> immediateCommit = (timeBeforeFirstCommit timeMetrics < 5 * 60 * 1000),
       multiSessionReview = ri_multipleEditSessions reviewIndicators,
       crossToolCollaboration = False,
       incrementalRefinement = ri_incrementalRefinement reviewIndicators,
       multipleEditSessions = ri_multipleEditSessions reviewIndicators,
       pausesForReflection = ri_pausesForReflection reviewIndicators,
       commentaryAdded = ri_commentaryAdded reviewIndicators,
       codeRestructuring = ri_codeRestructuring reviewIndicators,
       testingEvidence = ri_testingEvidence reviewIndicators \<rparr>"

definition createEmptyAssessment :: ReviewQualityAssessment where
  "createEmptyAssessment =
     \<lparr> overallScore = 0,
       breakdown = \<lparr> timeInvestment = 0, iterationCount = 0, externalToolUsage = 0,
                     humanRefinement = 0, timeInvestmentScore = 0, iterationScore = 0,
                     refinementScore = 0, thoughtfulnessScore = 0, finalScore = 0 \<rparr>,
       patterns = \<lparr> immediateCommit = True, multiSessionReview = False,
                    crossToolCollaboration = False, incrementalRefinement = False,
                    multipleEditSessions = False, pausesForReflection = False,
                    commentaryAdded = False, codeRestructuring = False,
                    testingEvidence = False \<rparr>,
       review_evidence = \<lparr> editTimeline = [], pauseAnalysis = [], refinementExamples = [] \<rparr>,
       qualityLevel = ImmediateCommit,
       review_confidence = 1 \<rparr>"

text \<open>
  \<^verbatim>\<open>assessQuality\<close> is asynchronous only because it awaits the metrics log, whose
  writer catches its own failures; the log record (with a fresh identifier and the clock
  reading) does not reach the returned assessment, which is what the model computes.
\<close>

definition assessQuality ::
    "EnhancedChangeEvent list \<Rightarrow> CommitInfo option \<Rightarrow> ReviewQualityAssessment" where
  "assessQuality changes commitInfo =
     (if length changes = 0 then createEmptyAssessment
      else
        let timeMetrics = calculateTimeMetrics changes commitInfo;
            editPatterns = analyzeEditPatterns changes;
            reviewIndicators = identifyReviewIndicators changes timeMetrics;
            scoreBreakdown = calculateScoreBreakdown timeMetrics editPatterns reviewIndicators;
            level = determineQualityLevel (finalScore scoreBreakdown);
            conf = calculateConfidence changes scoreBreakdown;
            ev = extractReviewEvidence changes timeMetrics;
            pats = createPatterns reviewIndicators timeMetrics editPatterns
        in \<lparr> overallScore = finalScore scoreBreakdown,
             breakdown = scoreBreakdown,
             patterns = pats,
             review_evidence = ev,
             qualityLevel = level,
             review_confidence = conf \<rparr>)"

section \<open>Reference definition of the typing-speed score\<close>

text \<open>
  The score as the specification words it: with \<open>S\<close> the events whose
  \<^verbatim>\<open>instantTypingSpeed\<close> is strictly positive, the score is 0 when \<open>S\<close> is empty, and
  otherwise the average of the capped quotient of the mean speed by one and a half times
  the fast-typing threshold and of the fraction of \<open>S\<close> that is strictly faster than
  the threshold.
\<close>

definition meanOf :: "real list \<Rightarrow> real" where
  "meanOf xs = sum_list xs / real (length xs)"

definition fractionOf :: "('a \<Rightarrow> bool) \<Rightarrow> 'a list \<Rightarrow> real" where
  "fractionOf P xs = real (length (filter P xs)) / real (length xs)"

definition typingSpeedReference :: "real \<Rightarrow> EnhancedChangeEvent list \<Rightarrow> real" where
  "typingSpeedReference fast evs =
     (let S = filter (\<lambda>e. 0 < instantTypingSpeed e) evs
      in if S = [] then 0
         else
           let speedScore = min (meanOf (map instantTypingSpeed S) / (fast * (3 / 2))) 1;
               frequencyScore = fractionOf (\<lambda>s. fast < s) (map instantTypingSpeed S)
           in (speedScore + frequencyScore) / 2)"

section \<open>Concrete inputs\<close>

text \<open>
  The event of the test helper \<^verbatim>\<open>createMockChangeEvent\<close>, with the clock reading and
  the random identifier fixed; concrete inputs below are record updates of it.
\<close>

definition mockChangeEvent :: EnhancedChangeEvent where
  "mockChangeEvent =
     \<lparr> timestamp = 0, sessionId = ''test-session'', fileUri = ''test://file.ts'',
       eventId = ''test-event-0'', changeType = Insert,
       position = \<lparr> line = 1, character = 0 \<rparr>, content = None, contentLength = 50,
       timeSinceLastChange = 1000, timeSinceSessionStart = 5000, timeSinceFileOpen = 10000,
       ev_source = Live, vsCodeActive = True,
       cursorPosition = \<lparr> line = 1, character = 0 \<rparr>, selectionRange = None,
       instantTypingSpeed = 150, rollingTypingSpeed = 140, burstDetected = False,
       pauseBeforeChange = 100, isCodeBlock = False, isComment = False, isWhitespace = False,
       languageConstruct = ''unknown'', indentationLevel = 0,
       externalToolSignature = None \<rparr>"

definition typedEvent :: EnhancedChangeEvent where
  "typedEvent = mockChangeEvent \<lparr> eventId := ''test-event-1'', contentLength := 1 \<rparr>"

definition bulkEvent :: EnhancedChangeEvent where
  "bulkEvent = mockChangeEvent \<lparr> contentLength := 500, instantTypingSpeed := 1000 \<rparr>"

definition pastedEvent :: EnhancedChangeEvent where
  "pastedEvent = bulkEvent \<lparr> timeSinceLastChange := 10 \<rparr>"

definition toolEvent :: EnhancedChangeEvent where
  "toolEvent = pastedEvent \<lparr> externalToolSignature :=
     Some \<lparr> detected = True, toolType = ''cursor'', sig_confidence = 1,
            indicators = [''rapid-insert''] \<rparr> \<rparr>"

text \<open>Two events on which every one of the six heuristics scores 1.\<close>

definition saturatingEvent :: EnhancedChangeEvent where
  "saturatingEvent = toolEvent \<lparr> isCodeBlock := True, isComment := True,
                                languageConstruct := ''function'' \<rparr>"

definition saturatingEvents :: "EnhancedChangeEvent list" where
  "saturatingEvents =
     [saturatingEvent, saturatingEvent \<lparr> timestamp := 10, eventId := ''test-event-1'' \<rparr>]"

text \<open>
  A single slowly typed character that carries a tool signature and arrives \<open>10\<close> ms
  after its predecessor: an event with both a human and an AI indicator.
\<close>

definition typedToolEvent :: EnhancedChangeEvent where
  "typedToolEvent = saturatingEvent \<lparr> instantTypingSpeed := 150, contentLength := 1 \<rparr>"

text \<open>
  The default configuration with weights \<open>1/4, 1/4, 1/4, 1/4, 1/8, 1/8\<close>: each weight
  lies in \<open>[0, 1]\<close> and they sum to \<open>5/4\<close>.
\<close>

definition driftConfig :: AIDetectionConfig where
  "driftConfig = DEFAULT_AI_DETECTION_CONFIG \<lparr> weights :=
     \<lparr> bulkInsertionScore = 1 / 4, typingSpeedScore = 1 / 4, pastePatternScore = 1 / 4,
       externalToolScore = 1 / 4, contentPatternScore = 1 / 8, timingAnomalyScore = 1 / 8 \<rparr> \<rparr>"

text \<open>An event exactly one default interval (15 minutes) after the mock event.\<close>

definition boundaryEvent :: EnhancedChangeEvent where
  "boundaryEvent = mockChangeEvent \<lparr> timestamp := 900000, eventId := ''test-event-1'' \<rparr>"

text \<open>
  The configuration of the validator's test as a JavaScript value, and the same value
  with one weight replaced by \<^verbatim>\<open>NaN\<close>.
\<close>

definition finiteNumber :: "real \<Rightarrow> jsval" where
  "finiteNumber r = JNum (Finite r)"

definition configValue :: "jsval \<Rightarrow> jsval" where
  "configValue firstWeight =
     JObj [(''weights'', JObj [(''bulkInsertionScore'', firstWeight),
                               (''typingSpeedScore'', finiteNumber (20 / 100)),
                               (''pastePatternScore'', finiteNumber (15 / 100)),
                               (''externalToolScore'', finiteNumber (25 / 100)),
                               (''contentPatternScore'', finiteNumber (10 / 100)),
                               (''timingAnomalyScore'', finiteNumber (5 / 100))]),
           (''thresholds'', JObj [(''bulkInsertionSize'', finiteNumber 100),
                                  (''fastTypingSpeed'', finiteNumber 300),
                                  (''pasteTimeThreshold'', finiteNumber 100),
                                  (''longPauseThreshold'', finiteNumber 30000),
                                  (''rapidSequenceThreshold'', finiteNumber 100)]),
           (''classification'', JObj [(''humanThreshold'', finiteNumber (3 / 10)),
                                      (''aiAssistedThreshold'', finiteNumber (6 / 10)),
                                      (''aiGeneratedThreshold'', finiteNumber (8 / 10))]),
           (''bucketConfig'', JObj [(''intervalMinutes'', finiteNumber 15),
                                    (''aggregationMethod'', JStr ''average''),
                                    (''minEventsPerBucket'', finiteNumber 1)])]"

definition validConfigValue :: jsval where
  "validConfigValue = configValue (finiteNumber (25 / 100))"

definition nanWeightConfigValue :: jsval where
  "nanWeightConfigValue = configValue (JNum NaN)"

section \<open>Properties of the attribution engine\<close>

lemmas input_defs =
  mockChangeEvent_def typedEvent_def bulkEvent_def pastedEvent_def toolEvent_def
  saturatingEvent_def saturatingEvents_def typedToolEvent_def driftConfig_def boundaryEvent_def
  DEFAULT_AI_DETECTION_CONFIG_def DEFAULT_BUCKET_CONFIG_def

lemmas score_defs =
  calculateHeuristicScores_def calculateBulkInsertionScore_def calculateTypingSpeedScore_def
  calculatePastePatternScore_def calculateExternalToolScore_def
  calculateContentPatternScore_def calculateTimingAnomalyScore_def sigDetected_def
  sigConfidenceOrZero_def

lemmas decision_defs =
  makeFinalDecision_def decideByThreshold_def hasHumanIndicators_def hasAIIndicators_def

text \<open>The total of the weighted scores is the sum of the six products.\<close>

lemma totalWeightedScore_combineScores:
  "totalWeightedScore (combineScores cfg hs) =
     bulkInsertionScore hs * bulkInsertionScore (weights cfg)
   + typingSpeedScore hs * typingSpeedScore (weights cfg)
   + pastePatternScore hs * pastePatternScore (weights cfg)
   + externalToolScore hs * externalToolScore (weights cfg)
   + contentPatternScore hs * contentPatternScore (weights cfg)
   + timingAnomalyScore hs * timingAnomalyScore (weights cfg)"
  by (simp add: totalWeightedScore_def combineScores_def heuristicEntries_def
      weightOrZero_def Let_def)

lemma decideByThreshold_not_Mixed: "d_source (decideByThreshold cfg t) \<noteq> Mixed"
  by (simp add: decideByThreshold_def)

lemma decideByThreshold_aiProbability_le_one:
  "humanThreshold (classification cfg) \<le> 1 \<Longrightarrow>
   aiAssistedThreshold (classification cfg) \<le> 1 \<Longrightarrow>
   aiGeneratedThreshold (classification cfg) \<le> 1 \<Longrightarrow>
   d_aiProbability (decideByThreshold cfg t) \<le> 1"
  by (auto simp: decideByThreshold_def)

text \<open>The scores of the concrete inputs under the default thresholds.\<close>

lemma scores_mockChangeEvent:
  "calculateHeuristicScores DEFAULT_AI_DETECTION_CONFIG [mockChangeEvent] =
     \<lparr> bulkInsertionScore = 0, typingSpeedScore = 1 / 6, pastePatternScore = 0,
       externalToolScore = 0, contentPatternScore = 0, timingAnomalyScore = 0 \<rparr>"
  by (simp add: input_defs score_defs Let_def)

lemma scores_bulkEvent:
  "calculateHeuristicScores DEFAULT_AI_DETECTION_CONFIG [bulkEvent] =
     \<lparr> bulkInsertionScore = 1, typingSpeedScore = 1, pastePatternScore = 0,
       externalToolScore = 0, contentPatternScore = 0, timingAnomalyScore = 0 \<rparr>"
  by (simp add: input_defs score_defs Let_def)

lemma scores_pastedEvent:
  "calculateHeuristicScores DEFAULT_AI_DETECTION_CONFIG [pastedEvent] =
     \<lparr> bulkInsertionScore = 1, typingSpeedScore = 1, pastePatternScore = 1,
       externalToolScore = 0, contentPatternScore = 0, timingAnomalyScore = 0 \<rparr>"
  by (simp add: input_defs score_defs Let_def)

lemma scores_toolEvent:
  "calculateHeuristicScores DEFAULT_AI_DETECTION_CONFIG [toolEvent] =
     \<lparr> bulkInsertionScore = 1, typingSpeedScore = 1, pastePatternScore = 1,
       externalToolScore = 1, contentPatternScore = 0, timingAnomalyScore = 0 \<rparr>"
  by (simp add: input_defs score_defs Let_def)

lemma scores_typed_and_tool:
  "calculateHeuristicScores DEFAULT_AI_DETECTION_CONFIG [typedEvent, toolEvent] =
     \<lparr> bulkInsertionScore = 1 / 2, typingSpeedScore = 3 / 4, pastePatternScore = 1 / 2,
       externalToolScore = 1 / 2, contentPatternScore = 0, timingAnomalyScore = 1 / 2 \<rparr>"
  by (simp add: input_defs score_defs Let_def)

lemma scores_saturatingEvents:
  "calculateHeuristicScores driftConfig saturatingEvents =
     \<lparr> bulkInsertionScore = 1, typingSpeedScore = 1, pastePatternScore = 1,
       externalToolScore = 1, contentPatternScore = 1, timingAnomalyScore = 1 \<rparr>"
  by (simp add: input_defs score_defs Let_def)

lemma default_weights:
  "weights DEFAULT_AI_DETECTION_CONFIG =
     \<lparr> bulkInsertionScore = 25 / 100, typingSpeedScore = 20 / 100,
       pastePatternScore = 15 / 100, externalToolScore = 25 / 100,
       contentPatternScore = 10 / 100, timingAnomalyScore = 5 / 100 \<rparr>"
  by (simp add: DEFAULT_AI_DETECTION_CONFIG_def)

lemma default_classification:
  "classification DEFAULT_AI_DETECTION_CONFIG =
     \<lparr> humanThreshold = 3 / 10, aiAssistedThreshold = 6 / 10, aiGeneratedThreshold = 8 / 10 \<rparr>"
  by (simp add: DEFAULT_AI_DETECTION_CONFIG_def)

lemma default_thresholds:
  "thresholds DEFAULT_AI_DETECTION_CONFIG =
     \<lparr> bulkInsertionSize = 100, fastTypingSpeed = 300, pasteTimeThreshold = 100,
       longPauseThreshold = 30000, rapidSequenceThreshold = 100 \<rparr>"
  by (simp add: DEFAULT_AI_DETECTION_CONFIG_def)

subsection \<open>Weight-sum drift\<close>

text \<open>
  C1. The claim is that with non-negative weights that sum to more than 1 the returned
  confidence and aiProbability still lie in \<open>[0, 1]\<close>. The engine clamps only the
  boosted aiProbability of the last threshold branch; the confidence of the two
  ai-generated branches is the unclamped total. With the weights of \<open>driftConfig\<close>
  (each in \<open>[0, 1]\<close>, sum \<open>5/4\<close>) and two events on which every heuristic scores 1,
  \<open>analyze\<close> returns the confidence \<open>5/4\<close>.
\<close>

theorem weight_drift_confidence_above_one:
  "(let w = weights driftConfig
    in 0 \<le> bulkInsertionScore w \<and> 0 \<le> typingSpeedScore w \<and> 0 \<le> pastePatternScore w
       \<and> 0 \<le> externalToolScore w \<and> 0 \<le> contentPatternScore w \<and> 0 \<le> timingAnomalyScore w
       \<and> bulkInsertionScore w + typingSpeedScore w + pastePatternScore w
           + externalToolScore w + contentPatternScore w + timingAnomalyScore w = 5 / 4)
   \<and> source (analyze driftConfig saturatingEvents) = AIGenerated
   \<and> confidence (analyze driftConfig saturatingEvents) = 5 / 4
   \<and> \<not> confidence (analyze driftConfig saturatingEvents) \<le> 1
   \<and> aiProbability (analyze driftConfig saturatingEvents) = 1"
proof -
  have w: "weights driftConfig =
      \<lparr> bulkInsertionScore = 1 / 4, typingSpeedScore = 1 / 4, pastePatternScore = 1 / 4,
        externalToolScore = 1 / 4, contentPatternScore = 1 / 8, timingAnomalyScore = 1 / 8 \<rparr>"
    by (simp add: driftConfig_def)
  have total: "totalWeightedScore (combineScores driftConfig
                 (calculateHeuristicScores driftConfig saturatingEvents)) = 5 / 4"
    by (simp add: totalWeightedScore_combineScores scores_saturatingEvents w)
  have noHuman: "\<not> hasHumanIndicators driftConfig saturatingEvents"
    by (simp add: hasHumanIndicators_def input_defs)
  have cls: "classification driftConfig = classification DEFAULT_AI_DETECTION_CONFIG"
    by (simp add: driftConfig_def)
  have dec: "makeFinalDecision driftConfig (combineScores driftConfig
                 (calculateHeuristicScores driftConfig saturatingEvents)) saturatingEvents
             = \<lparr> d_source = AIGenerated, d_confidence = 5 / 4, d_aiProbability = 1 \<rparr>"
    by (simp add: makeFinalDecision_def total noHuman decideByThreshold_def cls
        default_classification)
  have ne: "length saturatingEvents \<noteq> 0"
    by (simp add: saturatingEvents_def)
  have res: "source (analyze driftConfig saturatingEvents) = AIGenerated"
            "confidence (analyze driftConfig saturatingEvents) = 5 / 4"
            "aiProbability (analyze driftConfig saturatingEvents) = 1"
    using ne by (simp_all add: analyze_def Let_def dec)
  show ?thesis
    by (simp add: w res)
qed

text \<open>
  What does hold on that side: the aiProbability never exceeds 1 when the three
  cutoffs do not.
\<close>

lemma analyze_aiProbability_le_one:
  "humanThreshold (classification cfg) \<le> 1 \<Longrightarrow>
   aiAssistedThreshold (classification cfg) \<le> 1 \<Longrightarrow>
   aiGeneratedThreshold (classification cfg) \<le> 1 \<Longrightarrow>
   aiProbability (analyze cfg changes) \<le> 1"
  by (simp add: analyze_def createEmptyAttribution_def Let_def makeFinalDecision_def
      decideByThreshold_aiProbability_le_one)

subsection \<open>Threshold classification\<close>

text \<open>The two indicators of the override, stated over the events.\<close>

lemma hasHumanIndicators_iff:
  "hasHumanIndicators cfg changes \<longleftrightarrow>
     (\<exists>e \<in> set changes. 0 < instantTypingSpeed e
        \<and> instantTypingSpeed e < fastTypingSpeed (thresholds cfg) \<and> contentLength e < 50)"
  by (simp add: hasHumanIndicators_def list_ex_iff)

lemma sigDetected_iff:
  "sigDetected e \<longleftrightarrow> (\<exists>s. externalToolSignature e = Some s \<and> detected s)"
  by (simp add: sigDetected_def split: option.splits)

lemma hasAIIndicators_iff:
  "hasAIIndicators cfg changes \<longleftrightarrow>
     (\<exists>e \<in> set changes. (\<exists>s. externalToolSignature e = Some s \<and> detected s)
        \<or> (bulkInsertionSize (thresholds cfg) < contentLength e
            \<and> timeSinceLastChange e < pasteTimeThreshold (thresholds cfg)))"
  by (simp add: hasAIIndicators_def list_ex_iff sigDetected_iff)

text \<open>The scores of three more inputs, used below.\<close>

lemma scores_typedTool_and_saturating:
  "calculateHeuristicScores DEFAULT_AI_DETECTION_CONFIG [typedToolEvent, saturatingEvent] =
     \<lparr> bulkInsertionScore = 1 / 2, typingSpeedScore = 3 / 4, pastePatternScore = 1 / 2,
       externalToolScore = 1, contentPatternScore = 1, timingAnomalyScore = 1 \<rparr>"
  by (simp add: input_defs score_defs Let_def)

lemma scores_typedTool_and_two_saturating:
  "calculateHeuristicScores DEFAULT_AI_DETECTION_CONFIG
     [typedToolEvent, saturatingEvent, saturatingEvent] =
     \<lparr> bulkInsertionScore = 2 / 3, typingSpeedScore = 5 / 6, pastePatternScore = 2 / 3,
       externalToolScore = 1, contentPatternScore = 1, timingAnomalyScore = 1 \<rparr>"
  by (simp add: input_defs score_defs Let_def)

text \<open>
  C3. For a non-empty event list let \<open>t\<close> be the sum of the six weighted heuristic
  scores; it is the total that \<open>makeFinalDecision\<close> computes. The result of \<open>analyze\<close>
  follows the first matching rule. With \<open>t\<close> below the human threshold it is human with
  confidence \<open>1 - t\<close> and probability \<open>t\<close>. From the human threshold up to the
  ai-assisted one the probability is \<open>t\<close> and, before the override, the source is
  ai-assisted with confidence \<open>0.8\<close>. From there up to the ai-generated threshold the
  probability is \<open>t\<close> and, before the override, the source is ai-generated with
  confidence \<open>t\<close>. At or above the ai-generated threshold the probability is
  \<open>min (t + 0.1) 1\<close> and, before the override, the source is ai-generated with
  confidence \<open>t\<close>. Before the override means: source and confidence are these when the
  two mixed-signal indicators do not both hold, and when they do the source is mixed and
  the confidence is the minimum of the rule's confidence and \<open>0.8\<close>. The threshold
  chain \<open>decideByThreshold\<close> inside \<open>makeFinalDecision\<close> yields the rule's triple.
\<close>

theorem threshold_classification:
  "changes \<noteq> [] \<Longrightarrow>
   (let hs = calculateHeuristicScores cfg changes;
        t = bulkInsertionScore hs * bulkInsertionScore (weights cfg)
          + typingSpeedScore hs * typingSpeedScore (weights cfg)
          + pastePatternScore hs * pastePatternScore (weights cfg)
          + externalToolScore hs * externalToolScore (weights cfg)
          + contentPatternScore hs * contentPatternScore (weights cfg)
          + timingAnomalyScore hs * timingAnomalyScore (weights cfg);
        h = humanThreshold (classification cfg);
        a = aiAssistedThreshold (classification cfg);
        g = aiGeneratedThreshold (classification cfg);
        d = decideByThreshold cfg t;
        mixedSignals =
          ((\<exists>e \<in> set changes. 0 < instantTypingSpeed e
              \<and> instantTypingSpeed e < fastTypingSpeed (thresholds cfg)
              \<and> contentLength e < 50)
           \<and> (\<exists>e \<in> set changes. (\<exists>s. externalToolSignature e = Some s \<and> detected s)
              \<or> (bulkInsertionSize (thresholds cfg) < contentLength e
                  \<and> timeSinceLastChange e < pasteTimeThreshold (thresholds cfg))));
        r = analyze cfg changes
    in totalWeightedScore (combineScores cfg hs) = t
     \<and> aiProbability r = d_aiProbability d
     \<and> (t < h \<longrightarrow>
          d = \<lparr> d_source = Human, d_confidence = 1 - t, d_aiProbability = t \<rparr>
          \<and> source r = Human \<and> confidence r = 1 - t \<and> aiProbability r = t)
     \<and> (h \<le> t \<and> t < a \<longrightarrow>
          d = \<lparr> d_source = AIAssisted, d_confidence = 8 / 10, d_aiProbability = t \<rparr>
          \<and> aiProbability r = t
          \<and> (\<not> mixedSignals \<longrightarrow> source r = AIAssisted \<and> confidence r = 8 / 10)
          \<and> (mixedSignals \<longrightarrow> source r = Mixed \<and> confidence r = min (8 / 10) (8 / 10)))
     \<and> (h \<le> t \<and> a \<le> t \<and> t < g \<longrightarrow>
          d = \<lparr> d_source = AIGenerated, d_confidence = t, d_aiProbability = t \<rparr>
          \<and> aiProbability r = t
          \<and> (\<not> mixedSignals \<longrightarrow> source r = AIGenerated \<and> confidence r = t)
          \<and> (mixedSignals \<longrightarrow> source r = Mixed \<and> confidence r = min t (8 / 10)))
     \<and> (h \<le> t \<and> a \<le> t \<and> g \<le> t \<longrightarrow>
          d = \<lparr> d_source = AIGenerated, d_confidence = t,
                 d_aiProbability = min (t + 1 / 10) 1 \<rparr>
          \<and> aiProbability r = min (t + 1 / 10) 1
          \<and> (\<not> mixedSignals \<longrightarrow> source r = AIGenerated \<and> confidence r = t)
          \<and> (mixedSignals \<longrightarrow> source r = Mixed \<and> confidence r = min t (8 / 10))))"
  unfolding Let_def hasHumanIndicators_iff [symmetric] hasAIIndicators_iff [symmetric]
  by (simp add: Let_def totalWeightedScore_combineScores analyze_def makeFinalDecision_def
      decideByThreshold_def)

text \<open>
  Every rule at the default configuration, without and with the override. Without:
  the mock event (total \<open>1/30\<close>, human), a bulk insertion typed fast (\<open>9/20\<close>,
  ai-assisted), the same pasted (\<open>3/5\<close>, exactly the ai-assisted threshold,
  ai-generated), and the same with a detected tool signature (\<open>17/20\<close>, ai-generated
  with the boosted probability). With both indicators: a typed character before a
  tool-signed paste (\<open>1/2\<close>), a tool-signed typed character before one saturating
  event (\<open>3/4\<close>) and before two (\<open>5/6\<close>), all mixed.
\<close>

theorem threshold_classification_witness:
  "([mockChangeEvent] \<noteq> []
      \<and> source (analyze DEFAULT_AI_DETECTION_CONFIG [mockChangeEvent]) = Human
      \<and> confidence (analyze DEFAULT_AI_DETECTION_CONFIG [mockChangeEvent]) = 29 / 30
      \<and> aiProbability (analyze DEFAULT_AI_DETECTION_CONFIG [mockChangeEvent]) = 1 / 30)
   \<and> ([bulkEvent] \<noteq> []
      \<and> source (analyze DEFAULT_AI_DETECTION_CONFIG [bulkEvent]) = AIAssisted
      \<and> confidence (analyze DEFAULT_AI_DETECTION_CONFIG [bulkEvent]) = 8 / 10
      \<and> aiProbability (analyze DEFAULT_AI_DETECTION_CONFIG [bulkEvent]) = 9 / 20)
   \<and> ([pastedEvent] \<noteq> []
      \<and> source (analyze DEFAULT_AI_DETECTION_CONFIG [pastedEvent]) = AIGenerated
      \<and> confidence (analyze DEFAULT_AI_DETECTION_CONFIG [pastedEvent]) = 3 / 5
      \<and> aiProbability (analyze DEFAULT_AI_DETECTION_CONFIG [pastedEvent]) = 3 / 5)
   \<and> ([toolEvent] \<noteq> []
      \<and> source (analyze DEFAULT_AI_DETECTION_CONFIG [toolEvent]) = AIGenerated
      \<and> confidence (analyze DEFAULT_AI_DETECTION_CONFIG [toolEvent]) = 17 / 20
      \<and> aiProbability (analyze DEFAULT_AI_DETECTION_CONFIG [toolEvent]) = 19 / 20)
   \<and> ([typedEvent, toolEvent] \<noteq> []
      \<and> source (analyze DEFAULT_AI_DETECTION_CONFIG [typedEvent, toolEvent]) = Mixed
      \<and> confidence (analyze DEFAULT_AI_DETECTION_CONFIG [typedEvent, toolEvent]) = 8 / 10
      \<and> aiProbability (analyze DEFAULT_AI_DETECTION_CONFIG [typedEvent, toolEvent]) = 1 / 2)
   \<and> ([typedToolEvent, saturatingEvent] \<noteq> []
      \<and> source (analyze DEFAULT_AI_DETECTION_CONFIG [typedToolEvent, saturatingEvent]) = Mixed
      \<and> confidence (analyze DEFAULT_AI_DETECTION_CONFIG [typedToolEvent, saturatingEvent])
          = 3 / 4
      \<and> aiProbability (analyze DEFAULT_AI_DETECTION_CONFIG [typedToolEvent, saturatingEvent])
          = 3 / 4)
   \<and> ([typedToolEvent, saturatingEvent, saturatingEvent] \<noteq> []
      \<and> source (analyze DEFAULT_AI_DETECTION_CONFIG
            [typedToolEvent, saturatingEvent, saturatingEvent]) = Mixed
      \<and> confidence (analyze DEFAULT_AI_DETECTION_CONFIG
            [typedToolEvent, saturatingEvent, saturatingEvent]) = 8 / 10
      \<and> aiProbability (analyze DEFAULT_AI_DETECTION_CONFIG
            [typedToolEvent, saturatingEvent, saturatingEvent]) = 14 / 15)"
proof -
  note rules = threshold_classification [where cfg = DEFAULT_AI_DETECTION_CONFIG,
      unfolded Let_def default_weights default_classification default_thresholds]
  have typed: "0 < instantTypingSpeed typedEvent \<and> instantTypingSpeed typedEvent < 300
      \<and> contentLength typedEvent < 50"
    by (simp add: typedEvent_def mockChangeEvent_def)
  have typedTool: "0 < instantTypingSpeed typedToolEvent
      \<and> instantTypingSpeed typedToolEvent < 300 \<and> contentLength typedToolEvent < 50"
    by (simp add: input_defs)
  have signed: "\<exists>s. externalToolSignature toolEvent = Some s \<and> detected s"
      "\<exists>s. externalToolSignature typedToolEvent = Some s \<and> detected s"
    by (simp_all add: input_defs)
  have fast: "\<not> instantTypingSpeed bulkEvent < 300" "\<not> instantTypingSpeed pastedEvent < 300"
      "\<not> instantTypingSpeed toolEvent < 300"
    by (simp_all add: input_defs)
  have one: "source (analyze DEFAULT_AI_DETECTION_CONFIG [mockChangeEvent]) = Human
      \<and> confidence (analyze DEFAULT_AI_DETECTION_CONFIG [mockChangeEvent]) = 29 / 30
      \<and> aiProbability (analyze DEFAULT_AI_DETECTION_CONFIG [mockChangeEvent]) = 1 / 30"
    using rules [of "[mockChangeEvent]"]
    by (simp add: scores_mockChangeEvent)
  have two: "source (analyze DEFAULT_AI_DETECTION_CONFIG [bulkEvent]) = AIAssisted
      \<and> confidence (analyze DEFAULT_AI_DETECTION_CONFIG [bulkEvent]) = 8 / 10
      \<and> aiProbability (analyze DEFAULT_AI_DETECTION_CONFIG [bulkEvent]) = 9 / 20"
    using rules [of "[bulkEvent]"] fast
    by (simp add: scores_bulkEvent)
  have three: "source (analyze DEFAULT_AI_DETECTION_CONFIG [pastedEvent]) = AIGenerated
      \<and> confidence (analyze DEFAULT_AI_DETECTION_CONFIG [pastedEvent]) = 3 / 5
      \<and> aiProbability (analyze DEFAULT_AI_DETECTION_CONFIG [pastedEvent]) = 3 / 5"
    using rules [of "[pastedEvent]"] fast
    by (simp add: scores_pastedEvent)
  have four: "source (analyze DEFAULT_AI_DETECTION_CONFIG [toolEvent]) = AIGenerated
      \<and> confidence (analyze DEFAULT_AI_DETECTION_CONFIG [toolEvent]) = 17 / 20
      \<and> aiProbability (analyze DEFAULT_AI_DETECTION_CONFIG [toolEvent]) = 19 / 20"
    using rules [of "[toolEvent]"] fast
    by (simp add: scores_toolEvent)
  have five: "source (analyze DEFAULT_AI_DETECTION_CONFIG [typedEvent, toolEvent]) = Mixed
      \<and> confidence (analyze DEFAULT_AI_DETECTION_CONFIG [typedEvent, toolEvent]) = 8 / 10
      \<and> aiProbability (analyze DEFAULT_AI_DETECTION_CONFIG [typedEvent, toolEvent]) = 1 / 2"
    using rules [of "[typedEvent, toolEvent]"] typed signed
    by (simp add: scores_typed_and_tool)
  have six: "source (analyze DEFAULT_AI_DETECTION_CONFIG [typedToolEvent, saturatingEvent]) = Mixed
      \<and> confidence (analyze DEFAULT_AI_DETECTION_CONFIG [typedToolEvent, saturatingEvent])
          = 3 / 4
      \<and> aiProbability (analyze DEFAULT_AI_DETECTION_CONFIG [typedToolEvent, saturatingEvent])
          = 3 / 4"
    using rules [of "[typedToolEvent, saturatingEvent]"] typedTool signed
    by (simp add: scores_typedTool_and_saturating)
  have seven: "source (analyze DEFAULT_AI_DETECTION_CONFIG
            [typedToolEvent, saturatingEvent, saturatingEvent]) = Mixed
      \<and> confidence (analyze DEFAULT_AI_DETECTION_CONFIG
            [typedToolEvent, saturatingEvent, saturatingEvent]) = 8 / 10
      \<and> aiProbability (analyze DEFAULT_AI_DETECTION_CONFIG
            [typedToolEvent, saturatingEvent, saturatingEvent]) = 14 / 15"
    using rules [of "[typedToolEvent, saturatingEvent, saturatingEvent]"] typedTool signed
    by (simp add: scores_typedTool_and_two_saturating)
  from one two three four five six seven show ?thesis
    by simp
qed

subsection \<open>Mixed-signal override\<close>

text \<open>
  C4. For every event list, with \<open>d\<close> the threshold-based decision, \<open>analyze\<close> returns
  the source mixed exactly when some event has \<open>0 < instantTypingSpeed < fastTypingSpeed\<close>
  and \<open>contentLength < 50\<close>, some event has a detected tool signature or has
  \<open>contentLength > bulkInsertionSize\<close> with \<open>timeSinceLastChange < pasteTimeThreshold\<close>,
  and \<open>d\<close> is not human; in that case the confidence is \<open>min\<close> of \<open>d\<close>'s confidence
  and \<open>0.8\<close>, and otherwise (on a non-empty list) source and confidence are those of
  \<open>d\<close>.
\<close>

theorem mixed_override:
  "(let d = decideByThreshold cfg
              (totalWeightedScore (combineScores cfg (calculateHeuristicScores cfg changes)));
        humanSide = (\<exists>e \<in> set changes. 0 < instantTypingSpeed e
                       \<and> instantTypingSpeed e < fastTypingSpeed (thresholds cfg)
                       \<and> contentLength e < 50);
        aiSide = (\<exists>e \<in> set changes. (\<exists>s. externalToolSignature e = Some s \<and> detected s)
                       \<or> (bulkInsertionSize (thresholds cfg) < contentLength e
                           \<and> timeSinceLastChange e < pasteTimeThreshold (thresholds cfg)));
        overridden = (humanSide \<and> aiSide \<and> d_source d \<noteq> Human)
    in (source (analyze cfg changes) = Mixed \<longleftrightarrow> overridden)
     \<and> (overridden \<longrightarrow>
          confidence (analyze cfg changes) = min (d_confidence d) (8 / 10))
     \<and> (changes \<noteq> [] \<and> \<not> overridden \<longrightarrow>
          source (analyze cfg changes) = d_source d
          \<and> confidence (analyze cfg changes) = d_confidence d))"
proof (cases "changes = []")
  case True
  then show ?thesis
    by (simp add: analyze_def createEmptyAttribution_def)
next
  case False
  then show ?thesis
    unfolding Let_def hasHumanIndicators_iff [symmetric] hasAIIndicators_iff [symmetric]
    by (simp add: analyze_def makeFinalDecision_def Let_def decideByThreshold_not_Mixed)
qed

text \<open>
  A slowly typed character followed by a pasted block with a tool signature totals
  \<open>1/2\<close> at the default configuration: ai-assisted by threshold, overridden to mixed.
  The mock event alone is human and is not overridden.
\<close>

theorem mixed_override_witness:
  "(source (analyze DEFAULT_AI_DETECTION_CONFIG [typedEvent, toolEvent]) = Mixed
      \<and> confidence (analyze DEFAULT_AI_DETECTION_CONFIG [typedEvent, toolEvent]) = 8 / 10)
   \<and> ([mockChangeEvent] \<noteq> []
      \<and> source (analyze DEFAULT_AI_DETECTION_CONFIG [mockChangeEvent]) = Human
      \<and> confidence (analyze DEFAULT_AI_DETECTION_CONFIG [mockChangeEvent]) = 29 / 30)"
proof -
  have t1: "totalWeightedScore (combineScores DEFAULT_AI_DETECTION_CONFIG
              (calculateHeuristicScores DEFAULT_AI_DETECTION_CONFIG [typedEvent, toolEvent])) = 1 / 2"
    by (simp add: totalWeightedScore_combineScores scores_typed_and_tool default_weights)
  have d1: "decideByThreshold DEFAULT_AI_DETECTION_CONFIG (1 / 2)
              = \<lparr> d_source = AIAssisted, d_confidence = 8 / 10, d_aiProbability = 1 / 2 \<rparr>"
    by (simp add: decideByThreshold_def default_classification)
  have human1: "typedEvent \<in> set [typedEvent, toolEvent] \<and> 0 < instantTypingSpeed typedEvent
      \<and> instantTypingSpeed typedEvent < fastTypingSpeed (thresholds DEFAULT_AI_DETECTION_CONFIG)
      \<and> contentLength typedEvent < 50"
    by (simp add: default_thresholds typedEvent_def mockChangeEvent_def)
  have ai1: "toolEvent \<in> set [typedEvent, toolEvent]
      \<and> (\<exists>s. externalToolSignature toolEvent = Some s \<and> detected s)"
    by (simp add: toolEvent_def)
  have first: "source (analyze DEFAULT_AI_DETECTION_CONFIG [typedEvent, toolEvent]) = Mixed
      \<and> confidence (analyze DEFAULT_AI_DETECTION_CONFIG [typedEvent, toolEvent]) = 8 / 10"
    using mixed_override [of DEFAULT_AI_DETECTION_CONFIG "[typedEvent, toolEvent]"] human1 ai1
    unfolding Let_def t1 d1 by auto
  have t2: "totalWeightedScore (combineScores DEFAULT_AI_DETECTION_CONFIG
              (calculateHeuristicScores DEFAULT_AI_DETECTION_CONFIG [mockChangeEvent])) = 1 / 30"
    by (simp add: totalWeightedScore_combineScores scores_mockChangeEvent default_weights)
  have d2: "decideByThreshold DEFAULT_AI_DETECTION_CONFIG (1 / 30)
              = \<lparr> d_source = Human, d_confidence = 29 / 30, d_aiProbability = 1 / 30 \<rparr>"
    by (simp add: decideByThreshold_def default_classification)
  have second: "source (analyze DEFAULT_AI_DETECTION_CONFIG [mockChangeEvent]) = Human
      \<and> confidence (analyze DEFAULT_AI_DETECTION_CONFIG [mockChangeEvent]) = 29 / 30"
    using mixed_override [of DEFAULT_AI_DETECTION_CONFIG "[mockChangeEvent]"]
    unfolding Let_def t2 d2 by simp
  from first second show ?thesis
    by simp
qed

subsection \<open>Typing-speed score\<close>

lemma foldl_add_sum_list: "foldl (\<lambda>sum (speed :: real). sum + speed) a xs = a + sum_list xs"
  by (induction xs arbitrary: a) simp_all

text \<open>
  C5. For every event list the typing-speed score of the engine equals the reference
  definition: 0 when no event has a positive \<open>instantTypingSpeed\<close>, and otherwise the
  average of \<open>min (mean / (fastTypingSpeed * 1.5)) 1\<close> and the fraction of the positive
  speeds that exceed \<open>fastTypingSpeed\<close>. The quotient of the reference is defined for a
  \<open>fastTypingSpeed\<close> other than zero.
\<close>

theorem typing_speed_matches_reference:
  "fastTypingSpeed (thresholds cfg) \<noteq> 0 \<Longrightarrow>
   calculateTypingSpeedScore cfg changes
     = typingSpeedReference (fastTypingSpeed (thresholds cfg)) changes"
  by (simp add: calculateTypingSpeedScore_def typingSpeedReference_def meanOf_def
      fractionOf_def Let_def foldl_add_sum_list)

theorem typing_speed_matches_reference_witness:
  "fastTypingSpeed (thresholds DEFAULT_AI_DETECTION_CONFIG) \<noteq> 0
   \<and> calculateTypingSpeedScore DEFAULT_AI_DETECTION_CONFIG [mockChangeEvent, bulkEvent] = 3 / 4
   \<and> typingSpeedReference 300 [mockChangeEvent, bulkEvent] = 3 / 4"
proof -
  have ne: "fastTypingSpeed (thresholds DEFAULT_AI_DETECTION_CONFIG) \<noteq> 0"
    by (simp add: default_thresholds)
  have ref: "typingSpeedReference 300 [mockChangeEvent, bulkEvent] = 3 / 4"
    by (simp add: typingSpeedReference_def meanOf_def fractionOf_def Let_def
        bulkEvent_def mockChangeEvent_def)
  show ?thesis
    using typing_speed_matches_reference [OF ne, of "[mockChangeEvent, bulkEvent]"] ne ref
    by (simp add: default_thresholds)
qed

subsection \<open>Empty input\<close>

text \<open>
  C6. \<open>analyze\<close> on the empty event list returns the canonical attribution: source
  human, confidence 0, aiProbability 0, every evidence array empty, every evidence flag
  false, and a timeline with no events and no gaps. The model of \<open>analyze\<close> is a total
  function whose empty branch performs no operation that could throw.
\<close>

theorem analyze_empty:
  "analyze cfg [] =
     \<lparr> source = Human, confidence = 0, aiProbability = 0,
       evidence = \<lparr> ev_externalToolSignature = False, bulkChangePattern = False,
                    timingAnomalies = False, contentCharacteristics = [],
                    bulkChanges = [], typingBursts = [], externalIndicators = [],
                    suspiciousPatterns = [] \<rparr>,
       timeline = \<lparr> vsCodeEvents = [], externalEvents = [], gaps = [] \<rparr> \<rparr>"
  by (simp add: analyze_def createEmptyAttribution_def)

subsection \<open>Monotonicity in a weight\<close>

text \<open>
  C9. For six raw heuristic scores that are all at least 0 and two weight records that
  agree on five weights while the sixth does not decrease, the total score (the sum of
  raw score times weight) under the first is at most the total under the second.
\<close>

theorem totalScore_monotone_in_weight:
  assumes "0 \<le> bulkInsertionScore hs" and "0 \<le> typingSpeedScore hs"
    and "0 \<le> pastePatternScore hs" and "0 \<le> externalToolScore hs"
    and "0 \<le> contentPatternScore hs" and "0 \<le> timingAnomalyScore hs"
    and "(w' = w \<lparr> bulkInsertionScore := x \<rparr> \<and> bulkInsertionScore w \<le> x)
       \<or> (w' = w \<lparr> typingSpeedScore := x \<rparr> \<and> typingSpeedScore w \<le> x)
       \<or> (w' = w \<lparr> pastePatternScore := x \<rparr> \<and> pastePatternScore w \<le> x)
       \<or> (w' = w \<lparr> externalToolScore := x \<rparr> \<and> externalToolScore w \<le> x)
       \<or> (w' = w \<lparr> contentPatternScore := x \<rparr> \<and> contentPatternScore w \<le> x)
       \<or> (w' = w \<lparr> timingAnomalyScore := x \<rparr> \<and> timingAnomalyScore w \<le> x)"
  shows "totalWeightedScore (combineScores (cfg \<lparr> weights := w \<rparr>) hs)
       \<le> totalWeightedScore (combineScores (cfg \<lparr> weights := w' \<rparr>) hs)"
  using assms by (auto simp: totalWeightedScore_combineScores mult_left_mono)

text \<open>
  Raising the typing-speed weight of the default configuration from \<open>0.2\<close> to \<open>0.5\<close>
  raises the total of the mock event from \<open>1/30\<close> to \<open>1/12\<close>.
\<close>

theorem totalScore_monotone_in_weight_witness:
  "totalWeightedScore (combineScores DEFAULT_AI_DETECTION_CONFIG
      (calculateHeuristicScores DEFAULT_AI_DETECTION_CONFIG [mockChangeEvent])) = 1 / 30
   \<and> totalWeightedScore (combineScores
        (DEFAULT_AI_DETECTION_CONFIG \<lparr> weights :=
           (weights DEFAULT_AI_DETECTION_CONFIG) \<lparr> typingSpeedScore := 1 / 2 \<rparr> \<rparr>)
        (calculateHeuristicScores DEFAULT_AI_DETECTION_CONFIG [mockChangeEvent])) = 1 / 12
   \<and> totalWeightedScore (combineScores DEFAULT_AI_DETECTION_CONFIG
        (calculateHeuristicScores DEFAULT_AI_DETECTION_CONFIG [mockChangeEvent]))
      \<le> totalWeightedScore (combineScores
        (DEFAULT_AI_DETECTION_CONFIG \<lparr> weights :=
           (weights DEFAULT_AI_DETECTION_CONFIG) \<lparr> typingSpeedScore := 1 / 2 \<rparr> \<rparr>)
        (calculateHeuristicScores DEFAULT_AI_DETECTION_CONFIG [mockChangeEvent]))"
proof -
  let ?hs = "calculateHeuristicScores DEFAULT_AI_DETECTION_CONFIG [mockChangeEvent]"
  let ?w = "weights DEFAULT_AI_DETECTION_CONFIG"
  have raw: "0 \<le> bulkInsertionScore ?hs" "0 \<le> typingSpeedScore ?hs"
    "0 \<le> pastePatternScore ?hs" "0 \<le> externalToolScore ?hs"
    "0 \<le> contentPatternScore ?hs" "0 \<le> timingAnomalyScore ?hs"
    by (simp_all add: scores_mockChangeEvent)
  have up: "typingSpeedScore ?w \<le> 1 / 2"
    by (simp add: default_weights)
  have same: "DEFAULT_AI_DETECTION_CONFIG \<lparr> weights := ?w \<rparr> = DEFAULT_AI_DETECTION_CONFIG"
    by simp
  have mono: "totalWeightedScore (combineScores DEFAULT_AI_DETECTION_CONFIG ?hs)
      \<le> totalWeightedScore (combineScores
           (DEFAULT_AI_DETECTION_CONFIG \<lparr> weights := ?w \<lparr> typingSpeedScore := 1 / 2 \<rparr> \<rparr>) ?hs)"
    using totalScore_monotone_in_weight [where hs = ?hs and w = ?w and x = "1 / 2"
        and w' = "?w \<lparr> typingSpeedScore := 1 / 2 \<rparr>" and cfg = DEFAULT_AI_DETECTION_CONFIG]
      raw up
    unfolding same by simp
  have v1: "totalWeightedScore (combineScores DEFAULT_AI_DETECTION_CONFIG ?hs) = 1 / 30"
    by (simp add: totalWeightedScore_combineScores scores_mockChangeEvent default_weights)
  have v2: "totalWeightedScore (combineScores
        (DEFAULT_AI_DETECTION_CONFIG \<lparr> weights := ?w \<lparr> typingSpeedScore := 1 / 2 \<rparr> \<rparr>) ?hs) = 1 / 12"
    by (simp add: totalWeightedScore_combineScores scores_mockChangeEvent default_weights)
  from v1 v2 mono show ?thesis
    by blast
qed

subsection \<open>Timeline\<close>

lemma filter_sigDetected:
  "filter sigDetected changes
     = filter (\<lambda>e. \<exists>s. externalToolSignature e = Some s \<and> detected s) changes"
  by (rule filter_cong) (simp_all add: sigDetected_iff)

text \<open>
  C10. For every non-empty event list the timeline of \<open>analyze\<close> has \<open>vsCodeEvents\<close>
  equal to the whole input list, and \<open>externalEvents\<close> is the projection of the events
  with a detected tool signature; so each such event occurs in \<open>vsCodeEvents\<close> and its
  projection occurs in \<open>externalEvents\<close>: the two lists overlap.
\<close>

theorem timeline_overlap:
  "changes \<noteq> [] \<Longrightarrow>
   vsCodeEvents (timeline (analyze cfg changes)) = changes
   \<and> externalEvents (timeline (analyze cfg changes))
       = map toExternalChangeEvent
           (filter (\<lambda>e. \<exists>s. externalToolSignature e = Some s \<and> detected s) changes)
   \<and> (\<forall>e \<in> set changes. (\<exists>s. externalToolSignature e = Some s \<and> detected s) \<longrightarrow>
         e \<in> set (vsCodeEvents (timeline (analyze cfg changes)))
         \<and> toExternalChangeEvent e \<in> set (externalEvents (timeline (analyze cfg changes))))"
  by (auto simp: analyze_def Let_def extractTimeline_def filter_sigDetected)

theorem timeline_overlap_witness:
  "[mockChangeEvent, toolEvent] \<noteq> []
   \<and> vsCodeEvents (timeline (analyze DEFAULT_AI_DETECTION_CONFIG [mockChangeEvent, toolEvent]))
       = [mockChangeEvent, toolEvent]
   \<and> toolEvent \<in> set (vsCodeEvents (timeline
         (analyze DEFAULT_AI_DETECTION_CONFIG [mockChangeEvent, toolEvent])))
   \<and> \<lparr> x_timestamp = 0, x_fileUri = ''test://file.ts'', x_changeType = BulkInsert,
       x_contentLength = 500, detectedTool = ''cursor'', x_confidence = 1 \<rparr>
       \<in> set (externalEvents (timeline
            (analyze DEFAULT_AI_DETECTION_CONFIG [mockChangeEvent, toolEvent])))"
proof -
  have ne: "[mockChangeEvent, toolEvent] \<noteq> []"
    by simp
  have det: "\<exists>s. externalToolSignature toolEvent = Some s \<and> detected s"
    by (simp add: toolEvent_def)
  have proj: "toExternalChangeEvent toolEvent
      = \<lparr> x_timestamp = 0, x_fileUri = ''test://file.ts'', x_changeType = BulkInsert,
          x_contentLength = 500, detectedTool = ''cursor'', x_confidence = 1 \<rparr>"
    by (simp add: toExternalChangeEvent_def sigConfidenceOrZero_def toolEvent_def
        pastedEvent_def bulkEvent_def mockChangeEvent_def)
  have mem: "toolEvent \<in> set [mockChangeEvent, toolEvent]"
    by simp
  from timeline_overlap [OF ne, of DEFAULT_AI_DETECTION_CONFIG] det mem proj ne
  show ?thesis
    by metis
qed

section \<open>Properties of the bucket analyzer\<close>

text \<open>One unfolding of the loop, and its closed form for a positive interval.\<close>

lemma createBucketsLoop_step:
  "time < endT \<Longrightarrow>
   createBucketsLoop evs config intervalMs endT time buckets
     = createBucketsLoop evs config intervalMs endT (time + intervalMs)
         (buckets @ [bucketAt evs config intervalMs time])"
  by (subst createBucketsLoop.simps) (simp add: bucketAt_def Let_def)

lemma createBucketsLoop_stop:
  "\<not> time < endT \<Longrightarrow> createBucketsLoop evs config intervalMs endT time buckets = Some buckets"
  by (subst createBucketsLoop.simps) simp

lemma upt_Suc_shift: "map f [0..<Suc n] = f 0 # map (\<lambda>k. f (Suc k)) [0..<n]"
  by (simp add: upt_conv_Cons map_Suc_upt [symmetric] comp_def del: upt_Suc)

lemma createBucketsLoop_closed:
  assumes "0 < intervalMs"
  shows "nat \<lceil>(endT - time) / intervalMs\<rceil> = n \<Longrightarrow>
     createBucketsLoop evs config intervalMs endT time buckets
       = Some (buckets @ map (\<lambda>k. bucketAt evs config intervalMs (time + real k * intervalMs))
                           [0..<n])"
proof (induction n arbitrary: time buckets)
  case 0
  then have "(endT - time) / intervalMs \<le> 0"
    by (simp add: ceiling_le_zero)
  with assms have "\<not> time < endT"
    by (simp add: divide_le_0_iff)
  then show ?case
    by (simp add: createBucketsLoop_stop)
next
  case (Suc n)
  then have "0 < \<lceil>(endT - time) / intervalMs\<rceil>"
    by linarith
  then have "0 < (endT - time) / intervalMs"
    by (simp add: zero_less_ceiling)
  with assms have less: "time < endT"
    by (simp add: zero_less_divide_iff)
  have "(endT - (time + intervalMs)) / intervalMs = (endT - time) / intervalMs - 1"
    using assms by (simp add: field_simps)
  then have "nat \<lceil>(endT - (time + intervalMs)) / intervalMs\<rceil> = n"
    using Suc.prems by simp
  from Suc.IH [OF this] show ?case
    by (simp add: createBucketsLoop_step [OF less] upt_Suc_shift algebra_simps del: upt_Suc)
qed

lemma windowsContaining_append:
  "windowsContaining (xs @ ys) t = windowsContaining xs t + windowsContaining ys t"
  by (simp add: windowsContaining_def)

lemma windowsContaining_closed:
  assumes "0 < intervalMs"
  shows "windowsContaining
           (map (\<lambda>k. bucketAt evs config intervalMs (s + real k * intervalMs)) [0..<n]) t
         = (if s \<le> t \<and> t < s + real n * intervalMs then 1 else 0)"
proof (induction n)
  case 0
  then show ?case by (simp add: windowsContaining_def)
next
  case (Suc n)
  let ?f = "\<lambda>k. bucketAt evs config intervalMs (s + real k * intervalMs)"
  define x where "x = real n * intervalMs"
  have next_end: "s + real (Suc n) * intervalMs = s + x + intervalMs"
    by (simp add: x_def algebra_simps)
  have before: "windowsContaining (map ?f [0..<n]) t = (if s \<le> t \<and> t < s + x then 1 else 0)"
    using Suc.IH by (simp add: x_def)
  have last: "windowsContaining [?f n] t
     = (if s + x \<le> t \<and> t < s + x + intervalMs then 1 else 0)"
    by (simp add: windowsContaining_def bucketAt_def Let_def x_def)
  have nonneg: "0 \<le> x"
    using assms by (simp add: x_def)
  have "windowsContaining (map ?f [0..<Suc n]) t
          = windowsContaining (map ?f [0..<n]) t + windowsContaining [?f n] t"
    by (simp add: windowsContaining_append)
  also have "\<dots> = (if s \<le> t \<and> t < s + x + intervalMs then 1 else 0)"
    unfolding before last using nonneg assms by auto
  finally show ?case
    unfolding next_end .
qed

text \<open>A list of one event has the same first and last timestamp, so the loop body never runs.\<close>

lemma createBuckets_single: "createBuckets [e] config = Some []"
  by (simp add: createBuckets_def createBucketsLoop_stop)

text \<open>
  C2. The claim is that for a non-empty event list in timestamp order every event's
  timestamp lies in exactly one bucket window, the last event and the single-event list
  included. The loop of \<open>createBuckets\<close> runs while the window start is strictly below
  the last timestamp: a single event yields no bucket at all, and an event exactly one
  interval after the first one falls on the end of the only window, which is excluded.
  In both cases the last event lies in no window and in no bucket's event list.
\<close>

theorem createBuckets_drops_last_event:
  "createBuckets [mockChangeEvent] DEFAULT_BUCKET_CONFIG = Some []
   \<and> windowsContaining [] (timestamp mockChangeEvent) = 0
   \<and> createBuckets [mockChangeEvent, boundaryEvent] DEFAULT_BUCKET_CONFIG
       = Some [\<lparr> startTime = 0, endTime = 900000, events = [mockChangeEvent],
                 bucket_aiProbability = None, heuristicScores = None, eventCount = 1,
                 isEmpty = False, attribution = None \<rparr>]
   \<and> windowsContaining [\<lparr> startTime = 0, endTime = 900000, events = [mockChangeEvent],
                           bucket_aiProbability = None, heuristicScores = None, eventCount = 1,
                           isEmpty = False, attribution = None \<rparr>] (timestamp boundaryEvent) = 0
   \<and> bucketsHolding [\<lparr> startTime = 0, endTime = 900000, events = [mockChangeEvent],
                        bucket_aiProbability = None, heuristicScores = None, eventCount = 1,
                        isEmpty = False, attribution = None \<rparr>] boundaryEvent = 0"
proof -
  have ts: "timestamp mockChangeEvent = 0" "timestamp boundaryEvent = 900000"
    by (simp_all add: boundaryEvent_def mockChangeEvent_def)
  have differ: "boundaryEvent \<noteq> mockChangeEvent"
    using ts by auto
  have single: "createBuckets [mockChangeEvent] DEFAULT_BUCKET_CONFIG = Some []"
    by (simp add: createBuckets_def createBucketsLoop.simps)
  have two: "createBuckets [mockChangeEvent, boundaryEvent] DEFAULT_BUCKET_CONFIG
       = Some [\<lparr> startTime = 0, endTime = 900000, events = [mockChangeEvent],
                 bucket_aiProbability = None, heuristicScores = None, eventCount = 1,
                 isEmpty = False, attribution = None \<rparr>]"
    by (simp add: createBuckets_def Let_def DEFAULT_BUCKET_CONFIG_def ts
        createBucketsLoop.simps)
  show ?thesis
    by (simp add: single two windowsContaining_def bucketsHolding_def ts differ)
qed

text \<open>
  What does hold: with a positive interval the call returns, every event strictly
  before the last timestamp lies in exactly one window and in exactly one bucket's event
  list, and the last timestamp lies in no window exactly when its distance from the
  first timestamp is a whole number of intervals.
\<close>

lemma bucketsHolding_windows:
  "e \<in> set evs \<Longrightarrow>
   bucketsHolding (map (\<lambda>k. bucketAt evs config intervalMs (g k)) ks) e
     = windowsContaining (map (\<lambda>k. bucketAt evs config intervalMs (g k)) ks) (timestamp e)"
  by (simp add: bucketsHolding_def windowsContaining_def bucketAt_def Let_def filter_map comp_def)

lemma createBuckets_covers_before_last:
  assumes pos: "0 < intervalMinutes config"
    and ne: "evs \<noteq> []"
    and first: "\<forall>e \<in> set evs. timestamp (hd evs) \<le> timestamp e"
  shows "\<exists>bs. createBuckets evs config = Some bs
     \<and> (\<forall>e \<in> set evs. timestamp e < timestamp (last evs) \<longrightarrow>
           windowsContaining bs (timestamp e) = 1 \<and> bucketsHolding bs e = 1)
     \<and> (windowsContaining bs (timestamp (last evs)) = 0 \<longleftrightarrow>
           (\<exists>k :: nat. timestamp (last evs) - timestamp (hd evs)
                         = real k * (intervalMinutes config * 60 * 1000)))"
proof -
  define I where "I = intervalMinutes config * 60 * 1000"
  define s where "s = timestamp (hd evs)"
  define E where "E = timestamp (last evs)"
  define n where "n = nat \<lceil>(E - s) / I\<rceil>"
  define bs where "bs = map (\<lambda>k. bucketAt evs config I (s + real k * I)) [0..<n]"
  have I: "0 < I"
    using pos by (simp add: I_def)
  have sE: "s \<le> E"
    using first ne by (simp add: s_def E_def)
  have res: "createBuckets evs config = Some bs"
    using ne createBucketsLoop_closed [OF I, of E s n evs config "[]"]
    by (simp add: createBuckets_def Let_def I_def [symmetric] s_def [symmetric]
        E_def [symmetric] n_def bs_def)
  have count: "windowsContaining bs t = (if s \<le> t \<and> t < s + real n * I then 1 else 0)" for t
    unfolding bs_def by (rule windowsContaining_closed [OF I])
  have "(E - s) / I \<le> real_of_int \<lceil>(E - s) / I\<rceil>"
    by (rule le_of_int_ceiling)
  also have "\<dots> \<le> real n"
    unfolding n_def by (metis of_int_of_nat_eq of_int_le_iff nat_le_iff order_refl)
  finally have "(E - s) / I \<le> real n" .
  with I have reach: "E \<le> s + real n * I"
    by (simp add: field_simps)
  have early: "windowsContaining bs (timestamp e) = 1 \<and> bucketsHolding bs e = 1"
    if "e \<in> set evs" and "timestamp e < E" for e
  proof -
    have "s \<le> timestamp e"
      using first that(1) by (simp add: s_def)
    with that(2) reach have "windowsContaining bs (timestamp e) = 1"
      by (simp add: count)
    moreover have "bucketsHolding bs e = windowsContaining bs (timestamp e)"
      unfolding bs_def by (rule bucketsHolding_windows [OF that(1)])
    ultimately show ?thesis
      by simp
  qed
  have lastev: "windowsContaining bs E = 0 \<longleftrightarrow> (\<exists>k :: nat. E - s = real k * I)"
  proof
    assume "windowsContaining bs E = 0"
    with sE reach have "E = s + real n * I"
      by (simp add: count split: if_splits)
    then have "E - s = real n * I"
      by simp
    then show "\<exists>k :: nat. E - s = real k * I" ..
  next
    assume "\<exists>k :: nat. E - s = real k * I"
    then obtain k :: nat where k: "E - s = real k * I" ..
    with I have "(E - s) / I = real k"
      by simp
    then have "n = k"
      by (simp add: n_def)
    with k have "E = s + real n * I"
      by simp
    then show "windowsContaining bs E = 0"
      by (simp add: count)
  qed
  have "createBuckets evs config = Some bs
     \<and> (\<forall>e \<in> set evs. timestamp e < E \<longrightarrow>
           windowsContaining bs (timestamp e) = 1 \<and> bucketsHolding bs e = 1)
     \<and> (windowsContaining bs E = 0 \<longleftrightarrow> (\<exists>k :: nat. E - s = real k * I))"
    using res early lastev by simp
  then show ?thesis
    unfolding E_def s_def I_def by (rule exI)
qed

text \<open>
  With an interval that is not positive and a last timestamp after the first one the
  call does not return.
\<close>

lemma createBucketsLoop_Some_positive:
  assumes "createBucketsLoop evs config intervalMs endT time buckets = Some result"
  shows "time < endT \<longrightarrow> 0 < intervalMs"
proof (rule createBucketsLoop.raw_induct
    [where P = "\<lambda>evs config intervalMs endT time buckets result. time < endT \<longrightarrow> 0 < intervalMs",
      OF _ assms])
  fix loop :: "EnhancedChangeEvent list \<Rightarrow> BucketConfig \<Rightarrow> real \<Rightarrow> real \<Rightarrow> real
       \<Rightarrow> TimeBucket list \<Rightarrow> TimeBucket list option"
    and evs config and intervalMs endT time :: real and buckets result
  assume IH: "\<And>evs config intervalMs endT time buckets result.
      loop evs config intervalMs endT time buckets = Some result \<Longrightarrow> time < endT \<longrightarrow> 0 < intervalMs"
    and body: "(if time < endT
      then let bucketEvents = filter (\<lambda>e. time \<le> timestamp e \<and> timestamp e < time + intervalMs) evs
           in loop evs config intervalMs endT (time + intervalMs)
               (buckets @ [\<lparr>startTime = time, endTime = time + intervalMs,
                    events = bucketEvents, bucket_aiProbability = None,
                    heuristicScores = None, eventCount = length bucketEvents,
                    isEmpty = real (length bucketEvents) < minEventsPerBucket config,
                    attribution = None\<rparr>])
      else Some buckets) = Some result"
  show "time < endT \<longrightarrow> 0 < intervalMs"
  proof
    assume less: "time < endT"
    with body have call: "loop evs config intervalMs endT (time + intervalMs)
        (buckets @ [bucketAt evs config intervalMs time]) = Some result"
      by (simp add: bucketAt_def Let_def)
    show "0 < intervalMs"
    proof (rule ccontr)
      assume neg: "\<not> 0 < intervalMs"
      with less have "time + intervalMs < endT"
        by simp
      with IH [OF call] neg show False
        by simp
    qed
  qed
qed

lemma createBuckets_diverges:
  assumes "evs \<noteq> []" and "timestamp (hd evs) < timestamp (last evs)"
    and "intervalMinutes config \<le> 0"
  shows "createBuckets evs config = None"
proof (cases "createBuckets evs config")
  case None
  then show ?thesis .
next
  case (Some result)
  with assms(1) have "createBucketsLoop evs config (intervalMinutes config * 60 * 1000)
      (timestamp (last evs)) (timestamp (hd evs)) [] = Some result"
    by (simp add: createBuckets_def Let_def)
  from createBucketsLoop_Some_positive [OF this] assms(2) have "0 < intervalMinutes config * 60 * 1000"
    by simp
  with assms(3) show ?thesis
    by simp
qed

section \<open>Properties of the review quality scorer\<close>

text \<open>
  C7. \<open>assessQuality\<close> on the empty event list, with or without commit information,
  returns the assessment with overall score 0, every component of the score breakdown
  0, every pattern flag false except \<open>immediateCommit\<close>, empty evidence, the quality
  level immediate-commit and confidence 1.
\<close>

theorem assessQuality_empty:
  "assessQuality [] commitInfo =
     \<lparr> overallScore = 0,
       breakdown = \<lparr> timeInvestment = 0, iterationCount = 0, externalToolUsage = 0,
                     humanRefinement = 0, timeInvestmentScore = 0, iterationScore = 0,
                     refinementScore = 0, thoughtfulnessScore = 0, finalScore = 0 \<rparr>,
       patterns = \<lparr> immediateCommit = True, multiSessionReview = False,
                    crossToolCollaboration = False, incrementalRefinement = False,
                    multipleEditSessions = False, pausesForReflection = False,
                    commentaryAdded = False, codeRestructuring = False,
                    testingEvidence = False \<rparr>,
       review_evidence = \<lparr> editTimeline = [], pauseAnalysis = [], refinementExamples = [] \<rparr>,
       qualityLevel = ImmediateCommit,
       review_confidence = 1 \<rparr>"
  by (simp add: assessQuality_def createEmptyAssessment_def)

section \<open>Properties of the configuration validator\<close>

lemmas validator_defs =
  validateAIDetectionConfig_def notAnObject_def requiredWeights_def requiredThresholds_def
  requiredClassification_def outOfOrder_def numGreater_def numGreaterEq_def

text \<open>Reading properties of an object, and the two range checks away from \<^verbatim>\<open>NaN\<close>.\<close>

lemma getProp_JObj: "getProp (JObj props) k = Inr (ownProperty (JObj props) k)"
  by (simp add: ownProperty_def)

lemma anyBad_JObj:
  "anyBad bad (JObj props) ks = Inr (list_ex (\<lambda>k. bad (ownProperty (JObj props) k)) ks)"
  by (induction ks) (simp_all add: getProp_JObj del: getProp.simps)

lemma notAnObject_iff: "notAnObject v \<longleftrightarrow> (\<forall>props. v \<noteq> JObj props)"
  by (cases v) (simp_all add: notAnObject_def)

lemma ownProperty_of_non_object: "notAnObject v \<Longrightarrow> ownProperty v k = JUndefined"
  by (cases v) (simp_all add: notAnObject_def ownProperty_def)

lemma outsideUnit_iff: "v \<noteq> JNum NaN \<Longrightarrow> outsideUnit v \<longleftrightarrow> \<not> inUnitInterval v"
proof (cases v)
  case (JNum n)
  assume "v \<noteq> JNum NaN"
  with JNum show ?thesis
    by (cases n) (auto simp: numGreater_def)
qed simp_all

lemma negativeOrNoNumber_iff: "v \<noteq> JNum NaN \<Longrightarrow> negativeOrNoNumber v \<longleftrightarrow> \<not> atLeastZero v"
proof (cases v)
  case (JNum n)
  assume "v \<noteq> JNum NaN"
  with JNum show ?thesis
    by (cases n) auto
qed simp_all

lemma inUnitInterval_cases: "inUnitInterval v \<Longrightarrow> \<exists>r. v = JNum (Finite r) \<and> 0 \<le> r \<and> r \<le> 1"
  by (cases v rule: inUnitInterval.cases) simp_all

lemma outOfOrder_in_unit:
  assumes "inUnitInterval (ownProperty (JObj props) ''humanThreshold'')"
    and "inUnitInterval (ownProperty (JObj props) ''aiAssistedThreshold'')"
    and "inUnitInterval (ownProperty (JObj props) ''aiGeneratedThreshold'')"
  shows "outOfOrder (JObj props) =
     Inr (\<not> (strictlyBelow (ownProperty (JObj props) ''humanThreshold'')
                           (ownProperty (JObj props) ''aiAssistedThreshold'')
            \<and> strictlyBelow (ownProperty (JObj props) ''aiAssistedThreshold'')
                           (ownProperty (JObj props) ''aiGeneratedThreshold'')))"
proof -
  from assms obtain h a g where
    "ownProperty (JObj props) ''humanThreshold'' = JNum (Finite h)"
    "ownProperty (JObj props) ''aiAssistedThreshold'' = JNum (Finite a)"
    "ownProperty (JObj props) ''aiGeneratedThreshold'' = JNum (Finite g)"
    by (blast dest: inUnitInterval_cases)
  then show ?thesis
    by (auto simp: outOfOrder_def getProp_JObj numGreaterEq_def simp del: getProp.simps)
qed

lemma anyBad_object:
  "\<not> notAnObject v \<Longrightarrow> anyBad bad v ks = Inr (list_ex (\<lambda>k. bad (ownProperty v k)) ks)"
  by (auto simp: notAnObject_iff anyBad_JObj)

lemma validate_object:
  "validateAIDetectionConfig (JObj props) =
     (let W = ownProperty (JObj props) ''weights'';
          T = ownProperty (JObj props) ''thresholds'';
          C = ownProperty (JObj props) ''classification''
      in if notAnObject W \<or> list_ex (\<lambda>k. outsideUnit (ownProperty W k)) requiredWeights
         then Inr False
         else if notAnObject T \<or> list_ex (\<lambda>k. negativeOrNoNumber (ownProperty T k)) requiredThresholds
         then Inr False
         else if notAnObject C \<or> list_ex (\<lambda>k. outsideUnit (ownProperty C k)) requiredClassification
         then Inr False
         else (case outOfOrder C of Inl err \<Rightarrow> Inl err | Inr unordered \<Rightarrow> Inr (\<not> unordered)))"
  by (auto simp: validateAIDetectionConfig_def Let_def getProp_JObj anyBad_object
      notAnObject_def [of "JObj props"] simp del: getProp.simps split: sum.splits)

text \<open>
  C8. The claim is that the validator returns true exactly for a non-null object whose
  six weights are numbers in \<open>[0, 1]\<close>, whose five thresholds are numbers at least 0 and
  whose three cutoffs are numbers in \<open>[0, 1]\<close> in strictly increasing order. The range
  checks are written as \<open>v < 0 || v > 1\<close>, which are both false for \<^verbatim>\<open>NaN\<close>: the test
  configuration with its first weight replaced by \<^verbatim>\<open>NaN\<close> is accepted, although that
  weight is not a number in \<open>[0, 1]\<close>.
\<close>

theorem validateAIDetectionConfig_accepts_NaN_weight:
  "validateAIDetectionConfig nanWeightConfigValue = Inr True
   \<and> \<not> validConfigRule nanWeightConfigValue
   \<and> validateAIDetectionConfig validConfigValue = Inr True
   \<and> validConfigRule validConfigValue"
  by (simp add: validator_defs nanWeightConfigValue_def validConfigValue_def configValue_def
      finiteNumber_def validConfigRule_def ownProperty_def)

text \<open>
  What does hold: the validator returns for every value (no property is read from
  \<^verbatim>\<open>undefined\<close> or \<^verbatim>\<open>null\<close>), and on a value without \<^verbatim>\<open>NaN\<close> in the fourteen checked
  fields it returns true exactly when the rule holds.
\<close>

lemma validateAIDetectionConfig_without_NaN:
  assumes w: "\<forall>k \<in> set requiredWeights. ownProperty (ownProperty config ''weights'') k \<noteq> JNum NaN"
    and t: "\<forall>k \<in> set requiredThresholds. ownProperty (ownProperty config ''thresholds'') k \<noteq> JNum NaN"
    and c: "\<forall>k \<in> set requiredClassification. ownProperty (ownProperty config ''classification'') k \<noteq> JNum NaN"
  shows "validateAIDetectionConfig config = Inr (validConfigRule config)"
proof (cases "notAnObject config")
  case True
  then show ?thesis
    by (auto simp: validateAIDetectionConfig_def validConfigRule_def notAnObject_iff split: jsval.splits)
next
  case False
  then obtain props where config: "config = JObj props"
    by (auto simp: notAnObject_iff)
  let ?W = "ownProperty config ''weights''" and ?T = "ownProperty config ''thresholds''"
    and ?C = "ownProperty config ''classification''"
  have badW: "list_ex (\<lambda>k. outsideUnit (ownProperty ?W k)) requiredWeights
                \<longleftrightarrow> \<not> list_all (\<lambda>k. inUnitInterval (ownProperty ?W k)) requiredWeights"
    using w by (simp add: list_ex_iff list_all_iff outsideUnit_iff)
  have badT: "list_ex (\<lambda>k. negativeOrNoNumber (ownProperty ?T k)) requiredThresholds
                \<longleftrightarrow> \<not> list_all (\<lambda>k. atLeastZero (ownProperty ?T k)) requiredThresholds"
    using t by (simp add: list_ex_iff list_all_iff negativeOrNoNumber_iff)
  have badC: "list_ex (\<lambda>k. outsideUnit (ownProperty ?C k)) requiredClassification
                \<longleftrightarrow> \<not> list_all (\<lambda>k. inUnitInterval (ownProperty ?C k)) requiredClassification"
    using c by (simp add: list_ex_iff list_all_iff outsideUnit_iff)
  have nonobjW: "notAnObject ?W \<Longrightarrow> \<not> list_all (\<lambda>k. inUnitInterval (ownProperty ?W k)) requiredWeights"
    by (simp add: ownProperty_of_non_object requiredWeights_def)
  have nonobjT: "notAnObject ?T \<Longrightarrow> \<not> list_all (\<lambda>k. atLeastZero (ownProperty ?T k)) requiredThresholds"
    by (simp add: ownProperty_of_non_object requiredThresholds_def)
  have nonobjC: "notAnObject ?C \<Longrightarrow> \<not> list_all (\<lambda>k. inUnitInterval (ownProperty ?C k)) requiredClassification"
    by (simp add: ownProperty_of_non_object requiredClassification_def)
  have order: "outOfOrder ?C =
     Inr (\<not> (strictlyBelow (ownProperty ?C ''humanThreshold'') (ownProperty ?C ''aiAssistedThreshold'')
            \<and> strictlyBelow (ownProperty ?C ''aiAssistedThreshold'') (ownProperty ?C ''aiGeneratedThreshold'')))"
    if "\<not> notAnObject ?C"
      and "list_all (\<lambda>k. inUnitInterval (ownProperty ?C k)) requiredClassification"
  proof -
    from that(1) obtain cp where C: "?C = JObj cp"
      by (auto simp: notAnObject_iff)
    from that(2) show ?thesis
      unfolding C by (intro outOfOrder_in_unit) (simp_all add: requiredClassification_def)
  qed
  have rule: "validConfigRule config \<longleftrightarrow>
       list_all (\<lambda>k. inUnitInterval (ownProperty ?W k)) requiredWeights
     \<and> list_all (\<lambda>k. atLeastZero (ownProperty ?T k)) requiredThresholds
     \<and> list_all (\<lambda>k. inUnitInterval (ownProperty ?C k)) requiredClassification
     \<and> strictlyBelow (ownProperty ?C ''humanThreshold'') (ownProperty ?C ''aiAssistedThreshold'')
     \<and> strictlyBelow (ownProperty ?C ''aiAssistedThreshold'') (ownProperty ?C ''aiGeneratedThreshold'')"
    by (simp add: validConfigRule_def config)
  show ?thesis
    unfolding rule unfolding config validate_object Let_def
    using badW badT badC nonobjW nonobjT nonobjC order
    unfolding config by auto
qed

lemma not_outsideUnit_number: "\<not> outsideUnit v \<Longrightarrow> \<exists>n. v = JNum n"
  by (cases v) simp_all

lemma outOfOrder_numbers:
  assumes "\<not> notAnObject C"
    and "\<not> list_ex (\<lambda>k. outsideUnit (ownProperty C k)) requiredClassification"
  shows "\<exists>b. outOfOrder C = Inr b"
proof -
  from assms(1) obtain cp where C: "C = JObj cp"
    by (auto simp: notAnObject_iff)
  from assms(2) obtain h a g where
    "ownProperty C ''humanThreshold'' = JNum h" "ownProperty C ''aiAssistedThreshold'' = JNum a"
    "ownProperty C ''aiGeneratedThreshold'' = JNum g"
    by (auto simp: requiredClassification_def dest!: not_outsideUnit_number)
  then show ?thesis
    unfolding C by (simp add: outOfOrder_def getProp_JObj del: getProp.simps)
qed

lemma validateAIDetectionConfig_returns: "\<exists>b. validateAIDetectionConfig config = Inr b"
proof (cases "notAnObject config")
  case True
  then have "validateAIDetectionConfig config = Inr False"
    by (simp add: validateAIDetectionConfig_def)
  then show ?thesis
    by blast
next
  case False
  then obtain props where config: "config = JObj props"
    by (auto simp: notAnObject_iff)
  show ?thesis
    unfolding config validate_object Let_def
    using outOfOrder_numbers [of "ownProperty (JObj props) ''classification''"]
    by auto
qed

end
